theory Spec2Isabelle
  imports Main
begin

section \<open>Device endpoints of the Corellium client: creation with firmware-asset remediation\<close>

text \<open>
  This theory embeds \<^verbatim>\<open>src/devices.ts\<close> and \<^verbatim>\<open>src/errors.ts\<close>.

  The endpoints talk to collaborators that are not part of the repository: the device
  API client (\<^verbatim>\<open>api.POST\<close>, \<^verbatim>\<open>api.GET\<close>), the image API
  (\<^verbatim>\<open>imageApi.create\<close>), the global \<^verbatim>\<open>fetch\<close>, the process environment,
  the clock, the UUID generator and the scratch directory. They are parameters of the
  model: each is a function of the history of calls made so far, so that any
  deterministic behaviour of the outside world (one that changes over time included)
  is an instance. Every call to a collaborator is appended to the history, a fetch and a
  registration together with what they answered; a rejected promise is the answer
  \<open>Inl e\<close>. The local file system is a store from paths to contents: a file that
  has been written can be read back.
\<close>

subsection \<open>Errors (\<^verbatim>\<open>src/errors.ts\<close>)\<close>

text \<open>An optional property \<^verbatim>\<open>field?: string | null\<close> has three states.\<close>

datatype 'a nullable = Undefined | Null | Value 'a

text \<open>
  The error payloads of the service. \<^verbatim>\<open>RawMissingFirmwareAssetError\<close> extends
  \<^verbatim>\<open>RawSDKError\<close>; \<^verbatim>\<open>create\<close> casts every error payload to it and then
  tests the property \<^verbatim>\<open>missingFwAssets\<close>, so the two added properties are
  optional in the model: \<open>None\<close> is a payload without the property.
\<close>

record RawSDKError =
  error :: string
  errorID :: string
  field :: "string nullable"

record RawMissingFirmwareAssetError = RawSDKError +
  missingFwAssets :: "string list option"
  projectId :: "string option"

text \<open>The error classes: \<open>message\<close> is the property set by \<^verbatim>\<open>super(data.error)\<close>.\<close>

record CorelliumSDKError =
  message :: string
  errorID :: string
  field :: "string nullable"

record MissingFirmwareAssetError = CorelliumSDKError +
  missingFwAssets :: "string list option"
  projectId :: "string option"

definition new_CorelliumSDKError :: "'x RawSDKError_scheme \<Rightarrow> CorelliumSDKError" where
  "new_CorelliumSDKError data =
     \<lparr> message = RawSDKError.error data,
       CorelliumSDKError.errorID = RawSDKError.errorID data,
       CorelliumSDKError.field = RawSDKError.field data \<rparr>"

definition new_MissingFirmwareAssetError ::
    "RawMissingFirmwareAssetError \<Rightarrow> MissingFirmwareAssetError" where
  "new_MissingFirmwareAssetError data =
     CorelliumSDKError.extend (new_CorelliumSDKError data)
       (MissingFirmwareAssetError.fields
          (RawMissingFirmwareAssetError.missingFwAssets data)
          (RawMissingFirmwareAssetError.projectId data))"

text \<open>
  What can be thrown: \<open>JsError m\<close> is \<^verbatim>\<open>new Error(m)\<close>, \<open>SDKError e\<close> an instance
  of \<^verbatim>\<open>CorelliumSDKError\<close>, \<open>TypeError m\<close> the error of the runtime itself.
  A collaborator may reject with any of them.
\<close>

datatype exn = JsError string | SDKError CorelliumSDKError | TypeError string

subsection \<open>Requests, responses and files\<close>

type_synonym bytes = string

datatype patch_profile = corelliumd | jailbroken | nonjailbroken

text \<open>
  The parameter of \<^verbatim>\<open>create\<close>, destructured as
  \<^verbatim>\<open>{ patches = 'jailbroken', ...body }\<close>: the optional \<open>patches\<close> and the other
  properties. The generated API types are not part of the sources, so the other
  properties are a type parameter \<open>'b\<close>.
\<close>

record 'b create_params =
  patches :: "patch_profile option"
  body :: 'b

text \<open>The request body \<^verbatim>\<open>{ ...body, patches: [patches] }\<close> sent to \<^verbatim>\<open>/v1/instances\<close>.\<close>

record 'b instance_request =
  spread_body :: 'b
  patches_list :: "patch_profile list"

text \<open>
  What the API client resolves to: \<^verbatim>\<open>{ data, error }\<close>. An error payload is an
  object, so \<^verbatim>\<open>if (response.error)\<close> asks whether there is one.
\<close>

record 'd response =
  data :: "'d option"
  error :: "RawMissingFirmwareAssetError option"

text \<open>
  The response of \<^verbatim>\<open>fetch\<close>. Its body is a stream, of which the model keeps what
  piping it to the scratch file does: the bytes that reach the file and, when
  \<^verbatim>\<open>pipeTo\<close> rejects (the transfer breaks, or the file cannot be created or
  written), the error it rejects with. \<^verbatim>\<open>Response.ok\<close> is true for a status
  from 200 to 299.
\<close>

datatype readable_stream = Stream bytes "exn option"

record fetch_response =
  status :: nat
  body :: "readable_stream option"

definition ok :: "fetch_response \<Rightarrow> bool" where
  "ok r \<longleftrightarrow> 200 \<le> status r \<and> status r \<le> 299"

record File =
  name :: string
  type :: string
  lastModified :: nat
  content :: bytes

text \<open>The argument of \<^verbatim>\<open>imageApi.create\<close>.\<close>

record image_params =
  type :: string
  encoding :: string
  encapsulated :: bool
  name :: string
  project :: "string option"
  file' :: File

subsection \<open>The outside world\<close>

datatype 'b event =
    ApiPost "'b instance_request"
  | ApiGet "string option"
  | Fetch string "exn + fetch_response"
  | FileWrite string bytes
  | ImageCreate image_params "exn option"

record 'b world =
  history :: "'b event list"
  files :: "string \<rightharpoonup> bytes"

definition emit :: "'b event \<Rightarrow> 'b world \<Rightarrow> 'b world" where
  "emit e w = w\<lparr>history := history w @ [e]\<rparr>"

record ('b, 'd) platform =
  api_POST :: "'b event list \<Rightarrow> 'b instance_request \<Rightarrow> exn + 'd response"
  api_GET :: "'b event list \<Rightarrow> string option \<Rightarrow> exn + 'd response"
  imageApi_create :: "'b event list \<Rightarrow> image_params \<Rightarrow> exn option"
  fetch :: "'b event list \<Rightarrow> string \<Rightarrow> exn + fetch_response"
  env_FETCH_FIRMWARE_ASSETS :: "'b event list \<Rightarrow> string option"
  randomUUID :: "'b event list \<Rightarrow> string"
  Date_now :: "'b event list \<Rightarrow> nat"
  os_tmpdir :: string
  path_join :: "string \<Rightarrow> string \<Rightarrow> string"

subsection \<open>\<^verbatim>\<open>fileFromPath\<close>\<close>

text \<open>\<^verbatim>\<open>s.split(sep)\<close> for a separator of one character: never the empty list.\<close>

fun split :: "char \<Rightarrow> string \<Rightarrow> string list" where
  "split sep [] = [[]]"
| "split sep (c # cs) =
     (if c = sep then [] # split sep cs
      else (case split sep cs of
              [] \<Rightarrow> [[c]]
            | s # ss \<Rightarrow> (c # s) # ss))"

definition fileFromPath ::
    "('b, 'd) platform \<Rightarrow> string \<Rightarrow> 'b world \<Rightarrow> exn + File" where
  "fileFromPath p path w =
     (case files w path of
        None \<Rightarrow> Inl (JsError ''ENOENT'')
      | Some buffer \<Rightarrow>
          let popped = last (split CHR ''/'' path);
              filename = (if popped = [] then ''file'' else popped)
          in Inr \<lparr> File.name = filename,
                   File.type = ''application/octet-stream'',
                   lastModified = Date_now p (history w),
                   content = buffer \<rparr>)"

subsection \<open>\<^verbatim>\<open>create\<close>: the remediation loop\<close>

text \<open>
  The body of \<^verbatim>\<open>for (const firmwareAssetUrl of knownErr.missingFwAssets)\<close> for
  one URL. An exception leaves the loop: the result is \<open>Inl e\<close> and the world as it
  is then. The scratch path is computed before the response is looked at. Piping the
  body leaves in the file the bytes that reached it; when \<^verbatim>\<open>pipeTo\<close> rejects,
  the turn ends with its error. When it resolves, the file is there with the whole
  body, and \<^verbatim>\<open>readFile\<close> on the same path finds it: that the file is not removed
  in between is the one thing taken for granted about the local file system.
\<close>

definition process_asset ::
    "('b, 'd) platform \<Rightarrow> MissingFirmwareAssetError \<Rightarrow> string \<Rightarrow> 'b world
       \<Rightarrow> (exn + unit) \<times> 'b world" where
  "process_asset p knownErr firmwareAssetUrl w =
     (case fetch p (history w) firmwareAssetUrl of
        Inl e \<Rightarrow> (Inl e, emit (Fetch firmwareAssetUrl (Inl e)) w)
      | Inr response \<Rightarrow>
          let w1 = emit (Fetch firmwareAssetUrl (Inr response)) w;
              fwAssetPath =
                path_join p (os_tmpdir p) (randomUUID p (history w1) @ ''.fwasset'')
          in if ok response \<and> fetch_response.body response \<noteq> None then
               (case the (fetch_response.body response) of
                  Stream chunks failure \<Rightarrow>
                    let w2 = emit (FileWrite fwAssetPath chunks)
                               (w1\<lparr>files := (files w1)(fwAssetPath \<mapsto> chunks)\<rparr>)
                    in (case failure of
                          Some e \<Rightarrow> (Inl e, w2)
                        | None \<Rightarrow>
                            (case fileFromPath p fwAssetPath w2 of
                               Inl e \<Rightarrow> (Inl e, w2)
                             | Inr file \<Rightarrow>
                                 let params =
                                       \<lparr> image_params.type = ''fwasset'',
                                         encoding = ''plain'',
                                         encapsulated = False,
                                         image_params.name = firmwareAssetUrl,
                                         project = MissingFirmwareAssetError.projectId knownErr,
                                         file' = file \<rparr>;
                                     answer = imageApi_create p (history w2) params;
                                     w3 = emit (ImageCreate params answer) w2
                                 in (case answer of
                                       Some e \<Rightarrow> (Inl e, w3)
                                     | None \<Rightarrow> (Inr (), w3)))))
             else (Inr (), w1))"

text \<open>The loop: the URLs one after the other, in the order of the list.\<close>

fun remediate_loop ::
    "('b, 'd) platform \<Rightarrow> MissingFirmwareAssetError \<Rightarrow> string list \<Rightarrow> 'b world
       \<Rightarrow> (exn + unit) \<times> 'b world" where
  "remediate_loop p knownErr [] w = (Inr (), w)"
| "remediate_loop p knownErr (firmwareAssetUrl # urls) w =
     (case process_asset p knownErr firmwareAssetUrl w of
        (Inl e, w') \<Rightarrow> (Inl e, w')
      | (Inr u, w') \<Rightarrow> remediate_loop p knownErr urls w')"

text \<open>Iterating a property that is not there is a \<^verbatim>\<open>TypeError\<close>.\<close>

definition remediate ::
    "('b, 'd) platform \<Rightarrow> MissingFirmwareAssetError \<Rightarrow> 'b world
       \<Rightarrow> (exn + unit) \<times> 'b world" where
  "remediate p knownErr w =
     (case MissingFirmwareAssetError.missingFwAssets knownErr of
        None \<Rightarrow> (Inl (TypeError ''knownErr.missingFwAssets is not iterable''), w)
      | Some urls \<Rightarrow> remediate_loop p knownErr urls w)"

subsection \<open>\<^verbatim>\<open>create\<close>\<close>

definition remediation_disabled_message :: string where
  "remediation_disabled_message =
     ''This instance requires additional firmware assets. To automatically download firmware assets and associate them with your domain, set the environment variable FETCH_FIRMWARE_ASSETS=1''"

text \<open>The default of the destructuring: \<^verbatim>\<open>patches = 'jailbroken'\<close>.\<close>

definition resolved_patches :: "'b create_params \<Rightarrow> patch_profile" where
  "resolved_patches params =
     (case create_params.patches params of None \<Rightarrow> jailbroken | Some v \<Rightarrow> v)"

definition request_of :: "'b create_params \<Rightarrow> 'b instance_request" where
  "request_of params =
     \<lparr> spread_body = create_params.body params,
       patches_list = [resolved_patches params] \<rparr>"

text \<open>
  \<^verbatim>\<open>create\<close> calls itself after a remediation pass, with nothing that bounds the
  number of passes. The first argument bounds the number of creation requests of a
  run: with none left the result is \<open>None\<close>, the call has not settled yet, and the
  world is the one reached so far. \<open>Some (Inr d)\<close> is \<^verbatim>\<open>return response.data\<close>
  and \<open>Some (Inl e)\<close> a rejection with \<open>e\<close>.
\<close>

fun create ::
    "nat \<Rightarrow> ('b, 'd) platform \<Rightarrow> 'b create_params \<Rightarrow> 'b world
       \<Rightarrow> (exn + 'd option) option \<times> 'b world" where
  "create 0 p params w = (None, w)"
| "create (Suc n) p params w =
     (let w1 = emit (ApiPost (request_of params)) w
      in case api_POST p (history w) (request_of params) of
           Inl e \<Rightarrow> (Some (Inl e), w1)
         | Inr response \<Rightarrow>
             (case response.error response of
                None \<Rightarrow> (Some (Inr (data response)), w1)
              | Some err \<Rightarrow>
                  if RawMissingFirmwareAssetError.missingFwAssets err \<noteq> None then
                    if env_FETCH_FIRMWARE_ASSETS p (history w1) = Some ''1'' then
                      (let knownErr = new_MissingFirmwareAssetError err
                       in case remediate p knownErr w1 of
                            (Inl e, w2) \<Rightarrow> (Some (Inl e), w2)
                          | (Inr u, w2) \<Rightarrow>
                              create n p
                                \<lparr> create_params.patches = Some (resolved_patches params),
                                  create_params.body = create_params.body params \<rparr>
                                w2)
                    else (Some (Inl (JsError remediation_disabled_message)), w1)
                  else (Some (Inl (SDKError (new_CorelliumSDKError err))), w1)))"

subsection \<open>\<^verbatim>\<open>list\<close> and \<^verbatim>\<open>search\<close>\<close>

text \<open>\<^verbatim>\<open>list\<close> is \<open>list_devices\<close> here: \<open>list\<close> is the type of lists.\<close>

definition list_devices ::
    "('b, 'd) platform \<Rightarrow> 'b world \<Rightarrow> (exn + 'd option) \<times> 'b world" where
  "list_devices p w =
     (let w1 = emit (ApiGet None) w
      in case api_GET p (history w) None of
           Inl e \<Rightarrow> (Inl e, w1)
         | Inr response \<Rightarrow>
             (case response.error response of
                Some err \<Rightarrow> (Inl (JsError (RawSDKError.error err)), w1)
              | None \<Rightarrow> (Inr (data response), w1)))"

definition search ::
    "('b, 'd) platform \<Rightarrow> string \<Rightarrow> 'b world \<Rightarrow> (exn + 'd option) \<times> 'b world" where
  "search p query_name w =
     (let w1 = emit (ApiGet (Some query_name)) w
      in case api_GET p (history w) (Some query_name) of
           Inl e \<Rightarrow> (Inl e, w1)
         | Inr response \<Rightarrow>
             (case response.error response of
                Some err \<Rightarrow> (Inl (JsError (RawSDKError.error err)), w1)
              | None \<Rightarrow> (Inr (data response), w1)))"

subsection \<open>Reading a history\<close>

text \<open>
  What a stretch of history holds: the URLs fetched, the URLs whose fetch gave a
  successful response with a body, the names given to the registrations, and the
  requests posted; each in the order of the calls.
\<close>

definition fetched :: "'b event list \<Rightarrow> string list" where
  "fetched es = concat (map (\<lambda>e. case e of Fetch u r \<Rightarrow> [u] | _ \<Rightarrow> []) es)"

definition succeeded :: "'b event list \<Rightarrow> string list" where
  "succeeded es =
     concat (map (\<lambda>e. case e of
                         Fetch u (Inr r) \<Rightarrow>
                           if ok r \<and> fetch_response.body r \<noteq> None then [u] else []
                       | _ \<Rightarrow> []) es)"

definition registered :: "'b event list \<Rightarrow> string list" where
  "registered es =
     concat (map (\<lambda>e. case e of ImageCreate a r \<Rightarrow> [image_params.name a] | _ \<Rightarrow> []) es)"

definition posted :: "'b event list \<Rightarrow> 'b instance_request list" where
  "posted es = concat (map (\<lambda>e. case e of ApiPost r \<Rightarrow> [r] | _ \<Rightarrow> []) es)"

text \<open>
  The stretches of history that one turn of the remediation loop can leave for the URL
  \<open>u\<close>, with the result \<open>r\<close> of the turn: a rejected fetch; a response that is
  skipped; a transfer that breaks; a registration, answered or rejected.
\<close>

definition asset_events ::
    "MissingFirmwareAssetError \<Rightarrow> string \<Rightarrow> exn + unit \<Rightarrow> 'b event list \<Rightarrow> bool" where
  "asset_events k u r es \<longleftrightarrow>
     (\<exists>e. es = [Fetch u (Inl e)] \<and> r = Inl e)
   \<or> (\<exists>resp. es = [Fetch u (Inr resp)]
          \<and> \<not> (ok resp \<and> fetch_response.body resp \<noteq> None) \<and> r = Inr ())
   \<or> (\<exists>resp chunks e path. es = [Fetch u (Inr resp), FileWrite path chunks]
          \<and> ok resp \<and> fetch_response.body resp = Some (Stream chunks (Some e)) \<and> r = Inl e)
   \<or> (\<exists>resp chunks path f ans.
          es = [Fetch u (Inr resp), FileWrite path chunks,
                ImageCreate \<lparr> image_params.type = ''fwasset'', encoding = ''plain'',
                              encapsulated = False, image_params.name = u,
                              project = MissingFirmwareAssetError.projectId k,
                              file' = f \<rparr> ans]
          \<and> ok resp \<and> fetch_response.body resp = Some (Stream chunks None)
          \<and> content f = chunks
          \<and> r = (case ans of Some e \<Rightarrow> Inl e | None \<Rightarrow> Inr ()))"

subsection \<open>A scripted outside world\<close>

text \<open>
  A platform for concrete runs. The device API answers its \<open>i\<close>-th creation request
  with \<open>posts i\<close> (counting from 0) and the environment variable has the value
  \<open>envs i\<close> while that request is handled; a URL \<open>u\<close> is answered with
  \<open>fetches u\<close> and its registration with \<open>registrations u\<close>; every \<^verbatim>\<open>GET\<close>
  is answered with \<open>gets\<close>.
\<close>

definition scripted ::
    "(nat \<Rightarrow> string option) \<Rightarrow> (nat \<Rightarrow> exn + 'd response)
       \<Rightarrow> (string \<Rightarrow> exn + fetch_response) \<Rightarrow> (string \<Rightarrow> exn option)
       \<Rightarrow> (exn + 'd response) \<Rightarrow> ('b, 'd) platform" where
  "scripted envs posts fetches registrations gets =
     \<lparr> api_POST = (\<lambda>h r. posts (length (posted h))),
       api_GET = (\<lambda>h q. gets),
       imageApi_create = (\<lambda>h a. registrations (image_params.name a)),
       fetch = (\<lambda>h u. fetches u),
       env_FETCH_FIRMWARE_ASSETS = (\<lambda>h. envs (length (posted h) - 1)),
       randomUUID = (\<lambda>h. replicate (length h) CHR ''0''),
       Date_now = length,
       os_tmpdir = ''/tmp'',
       path_join = (\<lambda>a b. a @ ''/'' @ b) \<rparr>"

definition fresh :: "'b world" where
  "fresh = \<lparr> history = [], files = Map.empty \<rparr>"

text \<open>The request of the end-to-end scenario, and the service's answers.\<close>

definition d1_params :: "(string \<times> string) list create_params" where
  "d1_params =
     \<lparr> create_params.patches = None,
       create_params.body =
         [(''project'', ''p1''), (''name'', ''d1''), (''flavor'', ''ranchu''), (''os'', ''14.0.0'')] \<rparr>"

definition missing :: "string list \<Rightarrow> RawMissingFirmwareAssetError" where
  "missing urls =
     \<lparr> RawSDKError.error = ''Missing firmware assets'',
       RawSDKError.errorID = ''MissingFirmwareAssets'',
       RawSDKError.field = Undefined,
       RawMissingFirmwareAssetError.missingFwAssets = Some urls,
       RawMissingFirmwareAssetError.projectId = Some ''p1'' \<rparr>"

definition invalid :: RawMissingFirmwareAssetError where
  "invalid =
     \<lparr> RawSDKError.error = ''Invalid flavor'',
       RawSDKError.errorID = ''UserError'',
       RawSDKError.field = Value ''flavor'',
       RawMissingFirmwareAssetError.missingFwAssets = None,
       RawMissingFirmwareAssetError.projectId = None \<rparr>"

definition failure :: "RawMissingFirmwareAssetError \<Rightarrow> exn + string response" where
  "failure err = Inr \<lparr> data = None, response.error = Some err \<rparr>"

definition success :: "string \<Rightarrow> exn + string response" where
  "success d = Inr \<lparr> data = Some d, response.error = None \<rparr>"

definition delivers :: "bytes \<Rightarrow> exn + fetch_response" where
  "delivers chunks = Inr \<lparr> status = 200, fetch_response.body = Some (Stream chunks None) \<rparr>"

definition not_found :: "exn + fetch_response" where
  "not_found = Inr \<lparr> status = 404, fetch_response.body = Some (Stream ''Not Found'' None) \<rparr>"

definition fw1 :: string where
  "fw1 = ''https://x/fw1''"

definition fw2 :: string where
  "fw2 = ''https://x/fw2''"

text \<open>
  Concrete worlds. \<open>never_enabled\<close>: the variable is set, to another value than
  \<^verbatim>\<open>1\<close>, and the service misses an asset. \<open>first_unreachable\<close>: remediation is
  enabled and the first of two missing assets answers 404. \<open>get_fails\<close>: the
  instances cannot be listed, and the payload names a missing asset.
\<close>

type_synonym scenario = "((string \<times> string) list, string) platform"

definition never_enabled :: scenario where
  "never_enabled =
     scripted (\<lambda>i. Some ''true'') (\<lambda>i. failure (missing [fw1]))
       (\<lambda>u. delivers ''firmware'') (\<lambda>u. None) (success ''[]'')"

definition first_unreachable :: scenario where
  "first_unreachable =
     scripted (\<lambda>i. Some ''1'') (\<lambda>i. failure (missing [fw1, fw2]))
       (\<lambda>u. if u = fw1 then not_found else delivers ''firmware'')
       (\<lambda>u. None) (success ''[]'')"

definition get_fails :: scenario where
  "get_fails =
     scripted (\<lambda>i. Some ''1'') (\<lambda>i. success ''d1-instance'')
       (\<lambda>u. delivers ''firmware'') (\<lambda>u. None) (failure (missing [fw1]))"

text \<open>
  \<open>both_reachable\<close>: remediation is enabled, two assets are missing and can be fetched
  and registered, and the second creation request succeeds. \<open>unreachable_asset\<close>: the
  one missing asset always answers 404 and the service keeps reporting it.
  \<open>registration_rejected\<close>: the image API rejects the first asset.
  \<open>enabled_once\<close>: the variable is \<^verbatim>\<open>1\<close> while the first request is handled and
  \<^verbatim>\<open>yes\<close> afterwards. \<open>rejects_flavor\<close>: the service answers with an error that
  is not about assets. \<open>nothing_listed\<close>: the first answer carries an empty list of
  missing assets. \<open>upload\<close> is the registration that the scripted platform sees for
  a URL, given the UUID and the time it has handed out.
\<close>

definition both_reachable :: scenario where
  "both_reachable =
     scripted (\<lambda>i. Some ''1'')
       (\<lambda>i. if i = 0 then failure (missing [fw1, fw2]) else success ''d1-instance'')
       (\<lambda>u. delivers ''firmware'') (\<lambda>u. None) (success ''[]'')"

definition unreachable_asset :: scenario where
  "unreachable_asset =
     scripted (\<lambda>i. Some ''1'') (\<lambda>i. failure (missing [fw1]))
       (\<lambda>u. not_found) (\<lambda>u. None) (success ''[]'')"

definition registration_rejected :: scenario where
  "registration_rejected =
     scripted (\<lambda>i. Some ''1'') (\<lambda>i. failure (missing [fw1, fw2]))
       (\<lambda>u. delivers ''firmware'')
       (\<lambda>u. if u = fw1 then Some (JsError ''Upload failed'') else None) (success ''[]'')"

definition enabled_once :: scenario where
  "enabled_once =
     scripted (\<lambda>i. if i = 0 then Some ''1'' else Some ''yes'') (\<lambda>i. failure (missing [fw1]))
       (\<lambda>u. delivers ''firmware'') (\<lambda>u. None) (success ''[]'')"

definition rejects_flavor :: scenario where
  "rejects_flavor =
     scripted (\<lambda>i. Some ''1'') (\<lambda>i. failure invalid)
       (\<lambda>u. delivers ''firmware'') (\<lambda>u. None) (success ''[]'')"

definition nothing_listed :: "string option \<Rightarrow> scenario" where
  "nothing_listed setting =
     scripted (\<lambda>i. setting)
       (\<lambda>i. if i = 0 then failure (missing []) else success ''d1-instance'')
       (\<lambda>u. delivers ''firmware'') (\<lambda>u. None) (success ''[]'')"

definition upload :: "string \<Rightarrow> string \<Rightarrow> nat \<Rightarrow> image_params" where
  "upload url uuid time =
     \<lparr> image_params.type = ''fwasset'', encoding = ''plain'', encapsulated = False,
       image_params.name = url, project = Some ''p1'',
       file' = \<lparr> File.name = uuid @ ''.fwasset'', File.type = ''application/octet-stream'',
                 lastModified = time, content = ''firmware'' \<rparr> \<rparr>"

section \<open>Properties\<close>

subsection \<open>The history of a remediation pass\<close>

lemma request_of_retry:
  "request_of \<lparr> create_params.patches = Some (resolved_patches params),
       create_params.body = create_params.body params \<rparr> = request_of params"
  by (simp add: request_of_def resolved_patches_def)

lemma history_emit: "history (emit e w) = history w @ [e]"
  by (simp add: emit_def)

lemma files_emit: "files (emit e w) = files w"
  by (simp add: emit_def)

lemma fileFromPath_written:
  "files w path = Some chunks \<Longrightarrow> \<exists>f. fileFromPath p path w = Inr f \<and> content f = chunks"
  by (simp add: fileFromPath_def Let_def)

lemma process_asset_rejected:
  assumes "fetch p (history w) u = Inl e"
  shows "process_asset p k u w = (Inl e, emit (Fetch u (Inl e)) w)"
  using assms by (simp add: process_asset_def)

lemma process_asset_skipped:
  assumes "fetch p (history w) u = Inr resp"
    and "\<not> (ok resp \<and> fetch_response.body resp \<noteq> None)"
  shows "process_asset p k u w = (Inr (), emit (Fetch u (Inr resp)) w)"
  using assms by (auto simp: process_asset_def Let_def)

lemma process_asset_broken:
  assumes "fetch p (history w) u = Inr resp" and "ok resp"
    and "fetch_response.body resp = Some (Stream chunks (Some e))"
  shows "\<exists>path w'. process_asset p k u w = (Inl e, w')
           \<and> history w' = history w @ [Fetch u (Inr resp), FileWrite path chunks]
           \<and> files w' = (files w)(path \<mapsto> chunks)"
  using assms by (simp add: process_asset_def Let_def emit_def)

lemma process_asset_registered:
  assumes "fetch p (history w) u = Inr resp" and "ok resp"
    and "fetch_response.body resp = Some (Stream chunks None)"
  shows "\<exists>path f ans w'. content f = chunks
           \<and> process_asset p k u w = (case ans of Some e \<Rightarrow> Inl e | None \<Rightarrow> Inr (), w')
           \<and> history w' = history w @ [Fetch u (Inr resp), FileWrite path chunks,
                ImageCreate \<lparr> image_params.type = ''fwasset'', encoding = ''plain'',
                              encapsulated = False, image_params.name = u,
                              project = MissingFirmwareAssetError.projectId k,
                              file' = f \<rparr> ans]
           \<and> files w' = (files w)(path \<mapsto> chunks)"
proof -
  define path where "path = path_join p (os_tmpdir p)
                 (randomUUID p (history (emit (Fetch u (Inr resp)) w)) @ ''.fwasset'')"
  define w2 where "w2 = emit (FileWrite path chunks)
             ((emit (Fetch u (Inr resp)) w)
                \<lparr>files := (files (emit (Fetch u (Inr resp)) w))(path \<mapsto> chunks)\<rparr>)"
  have "files w2 path = Some chunks" by (simp add: w2_def emit_def)
  then obtain f where f: "fileFromPath p path w2 = Inr f" "content f = chunks"
    using fileFromPath_written by blast
  define params where "params = \<lparr> image_params.type = ''fwasset'', encoding = ''plain'',
                              encapsulated = False, image_params.name = u,
                              project = MissingFirmwareAssetError.projectId k,
                              file' = f \<rparr>"
  define ans where "ans = imageApi_create p (history w2) params"
  have "process_asset p k u w =
          (case ans of Some e \<Rightarrow> Inl e | None \<Rightarrow> Inr (), emit (ImageCreate params ans) w2)"
    using assms f(1) [unfolded w2_def path_def]
    by (simp add: process_asset_def Let_def ans_def params_def w2_def path_def
             split: option.split)
  moreover have "history (emit (ImageCreate params ans) w2) =
      history w @ [Fetch u (Inr resp), FileWrite path chunks, ImageCreate params ans]"
    by (simp add: w2_def emit_def)
  moreover have "files (emit (ImageCreate params ans) w2) = (files w)(path \<mapsto> chunks)"
    by (simp add: w2_def emit_def)
  ultimately show ?thesis
    using f(2) unfolding params_def by blast
qed


lemma process_asset_events:
  "\<exists>es. history (snd (process_asset p k u w)) = history w @ es
        \<and> asset_events k u (fst (process_asset p k u w)) es"
proof (cases "fetch p (history w) u")
  case (Inl e)
  then show ?thesis
    by (simp add: process_asset_rejected asset_events_def history_emit)
next
  case (Inr resp)
  show ?thesis
  proof (cases "ok resp \<and> fetch_response.body resp \<noteq> None")
    case False
    with Inr show ?thesis
      by (simp add: process_asset_skipped asset_events_def history_emit)
  next
    case True
    then obtain chunks failure where b: "fetch_response.body resp = Some (Stream chunks failure)"
      by (cases "fetch_response.body resp") (auto intro: readable_stream.exhaust)
    show ?thesis
    proof (cases failure)
      case (Some e)
      with process_asset_broken [OF Inr _ b [unfolded Some], of k] True b
      show ?thesis
        by (auto simp: asset_events_def)
    next
      case None
      from process_asset_registered [OF Inr _ b [unfolded None], of k] True
      obtain path f ans w' where "content f = chunks"
        and "process_asset p k u w = (case ans of Some e \<Rightarrow> Inl e | None \<Rightarrow> Inr (), w')"
        and "history w' = history w @ [Fetch u (Inr resp), FileWrite path chunks,
                ImageCreate \<lparr> image_params.type = ''fwasset'', encoding = ''plain'',
                              encapsulated = False, image_params.name = u,
                              project = MissingFirmwareAssetError.projectId k,
                              file' = f \<rparr> ans]"
        by blast
      with True b None show ?thesis
        unfolding asset_events_def by (intro exI conjI disjI2) auto
    qed
  qed
qed

lemma remediate_loop_extends:
  "\<exists>es. history (snd (remediate_loop p k urls w)) = history w @ es"
proof (induction urls arbitrary: w)
  case Nil
  show ?case by simp
next
  case (Cons u urls)
  obtain r1 w1 where pa: "process_asset p k u w = (r1, w1)"
    by (cases "process_asset p k u w")
  from process_asset_events [of p k u w] pa
  obtain es1 where es1: "history w1 = history w @ es1" by auto
  show ?case
  proof (cases r1)
    case (Inl e)
    with pa es1 show ?thesis by simp
  next
    case (Inr x)
    from Cons.IH [of w1] obtain es2
      where "history (snd (remediate_loop p k urls w1)) = history w1 @ es2" ..
    with pa es1 Inr show ?thesis by simp
  qed
qed

lemma remediate_loop_Cons_decomp:
  assumes "history (snd (remediate_loop p k (u # urls) w)) = history w @ es"
  obtains (stop) e where "fst (remediate_loop p k (u # urls) w) = Inl e"
      and "asset_events k u (Inl e) es"
    | (continue) w1 es1 es2 where "asset_events k u (Inr ()) es1" and "es = es1 @ es2"
      and "remediate_loop p k (u # urls) w = remediate_loop p k urls w1"
      and "history (snd (remediate_loop p k urls w1)) = history w1 @ es2"
proof -
  obtain r1 w1 where pa: "process_asset p k u w = (r1, w1)"
    by (cases "process_asset p k u w")
  from process_asset_events [of p k u w] pa
  obtain es1 where es1: "history w1 = history w @ es1" "asset_events k u r1 es1" by auto
  show thesis
  proof (cases r1)
    case (Inl e)
    with pa es1 assms have "fst (remediate_loop p k (u # urls) w) = Inl e"
      and "asset_events k u (Inl e) es" by auto
    then show thesis by (rule stop)
  next
    case (Inr x)
    obtain es2 where es2: "history (snd (remediate_loop p k urls w1)) = history w1 @ es2"
      using remediate_loop_extends by blast
    have eq: "remediate_loop p k (u # urls) w = remediate_loop p k urls w1"
      using pa Inr by simp
    with assms es1 es2 have app: "es = es1 @ es2" by simp
    from es1 Inr have "asset_events k u (Inr ()) es1" by simp
    then show thesis using app eq es2 by (rule continue)
  qed
qed

lemma asset_events_fetched: "asset_events k u r es \<Longrightarrow> fetched es = [u]"
  by (auto simp: asset_events_def fetched_def)

lemma asset_events_posted: "asset_events k u r es \<Longrightarrow> posted es = []"
  by (auto simp: asset_events_def posted_def)

lemma asset_events_nonempty: "asset_events k u r es \<Longrightarrow> es \<noteq> []"
  by (auto simp: asset_events_def)

lemma asset_events_registered:
  "asset_events k u (Inr ()) es \<Longrightarrow> registered es = succeeded es"
  by (auto simp: asset_events_def registered_def succeeded_def split: option.splits)

lemma asset_events_registered_subset:
  "asset_events k u r es \<Longrightarrow> set (registered es) \<subseteq> {u}"
  by (auto simp: asset_events_def registered_def)

lemma asset_events_failed:
  "asset_events k u r es \<Longrightarrow> ImageCreate a (Some e) \<in> set es \<Longrightarrow>
     r = Inl e \<and> last es = ImageCreate a (Some e)"
  by (auto simp: asset_events_def)

lemma asset_events_params:
  "asset_events k u r es \<Longrightarrow> ImageCreate a ans \<in> set es \<Longrightarrow>
     image_params.type a = ''fwasset'' \<and> encoding a = ''plain'' \<and> \<not> encapsulated a
     \<and> image_params.name a = u \<and> project a = MissingFirmwareAssetError.projectId k
     \<and> (\<exists>resp path chunks.
           es = [Fetch u (Inr resp), FileWrite path chunks, ImageCreate a ans]
           \<and> ok resp \<and> fetch_response.body resp = Some (Stream chunks None)
           \<and> content (file' a) = chunks)"
  by (auto simp: asset_events_def)

lemma observers_Nil:
  "fetched [] = []" "succeeded [] = []" "registered [] = []" "posted [] = []"
  by (simp_all add: fetched_def succeeded_def registered_def posted_def)

lemma observers_append:
  "fetched (xs @ ys) = fetched xs @ fetched ys"
  "succeeded (xs @ ys) = succeeded xs @ succeeded ys"
  "registered (xs @ ys) = registered xs @ registered ys"
  "posted (xs @ ys) = posted xs @ posted ys"
  by (simp_all add: fetched_def succeeded_def registered_def posted_def)

lemma remediate_loop_posted:
  "history (snd (remediate_loop p k urls w)) = history w @ es \<Longrightarrow> posted es = []"
proof (induction urls arbitrary: w es)
  case Nil
  then show ?case by (simp add: observers_Nil)
next
  case (Cons u urls)
  from Cons.prems show ?case
  proof (cases rule: remediate_loop_Cons_decomp)
    case (stop e)
    then show ?thesis by (simp add: asset_events_posted)
  next
    case (continue w1 es1 es2)
    from Cons.IH [OF continue(4)] continue(1,2) show ?thesis
      by (simp add: observers_append asset_events_posted)
  qed
qed

lemma remediate_loop_thrown:
  "fst (remediate_loop p k urls w) = Inl e \<Longrightarrow>
   history (snd (remediate_loop p k urls w)) = history w @ es \<Longrightarrow> es \<noteq> []"
proof (induction urls arbitrary: w es)
  case Nil
  then show ?case by simp
next
  case (Cons u urls)
  from Cons.prems(2) show ?case
  proof (cases rule: remediate_loop_Cons_decomp)
    case (stop e')
    then show ?thesis by (simp add: asset_events_nonempty)
  next
    case (continue w1 es1 es2)
    then show ?thesis by (simp add: asset_events_nonempty)
  qed
qed

lemma remediate_loop_complete:
  "fst (remediate_loop p k urls w) = Inr x \<Longrightarrow>
   history (snd (remediate_loop p k urls w)) = history w @ es \<Longrightarrow>
   fetched es = urls \<and> registered es = succeeded es"
proof (induction urls arbitrary: w es)
  case Nil
  then show ?case by (simp add: observers_Nil)
next
  case (Cons u urls)
  from Cons.prems(2) show ?case
  proof (cases rule: remediate_loop_Cons_decomp)
    case (stop e)
    with Cons.prems(1) show ?thesis by simp
  next
    case (continue w1 es1 es2)
    from Cons.prems(1) continue(3) have "fst (remediate_loop p k urls w1) = Inr x" by simp
    from Cons.IH [OF this continue(4)] continue(1,2) show ?thesis
      using asset_events_fetched [of k u "Inr ()" es1] asset_events_registered [of k u es1]
      by (simp add: observers_append)
  qed
qed

lemma remediate_loop_failed:
  "history (snd (remediate_loop p k urls w)) = history w @ es \<Longrightarrow>
   ImageCreate a (Some e) \<in> set es \<Longrightarrow>
   fst (remediate_loop p k urls w) = Inl e \<and> last es = ImageCreate a (Some e)"
proof (induction urls arbitrary: w es)
  case Nil
  then show ?case by simp
next
  case (Cons u urls)
  from Cons.prems(1) show ?case
  proof (cases rule: remediate_loop_Cons_decomp)
    case (stop e')
    with Cons.prems(2) asset_events_failed [of k u "Inl e'" es a e] show ?thesis by simp
  next
    case (continue w1 es1 es2)
    from asset_events_failed [OF continue(1)] have "ImageCreate a (Some e) \<notin> set es1"
      by auto
    with Cons.prems(2) continue(2) have in2: "ImageCreate a (Some e) \<in> set es2" by simp
    then have "es2 \<noteq> []" by auto
    with Cons.IH [OF continue(4) in2] continue(2,3) show ?thesis by simp
  qed
qed

lemma remediate_loop_params:
  "history (snd (remediate_loop p k urls w)) = history w @ es \<Longrightarrow>
   ImageCreate a ans \<in> set es \<Longrightarrow>
     image_params.type a = ''fwasset'' \<and> encoding a = ''plain'' \<and> \<not> encapsulated a
     \<and> image_params.name a \<in> set urls \<and> project a = MissingFirmwareAssetError.projectId k
     \<and> (\<exists>before after resp path chunks.
           es = before @ [Fetch (image_params.name a) (Inr resp), FileWrite path chunks,
                          ImageCreate a ans] @ after
           \<and> ok resp \<and> fetch_response.body resp = Some (Stream chunks None)
           \<and> content (file' a) = chunks)"
proof (induction urls arbitrary: w es)
  case Nil
  then show ?case by simp
next
  case (Cons u urls)
  from Cons.prems(1) show ?case
  proof (cases rule: remediate_loop_Cons_decomp)
    case (stop e')
    from asset_events_params [OF stop(2) Cons.prems(2)]
    obtain resp path chunks where
      "image_params.type a = ''fwasset''" "encoding a = ''plain''" "\<not> encapsulated a"
      "image_params.name a = u" "project a = MissingFirmwareAssetError.projectId k"
      "es = [Fetch u (Inr resp), FileWrite path chunks, ImageCreate a ans]"
      "ok resp" "fetch_response.body resp = Some (Stream chunks None)"
      "content (file' a) = chunks" by blast
    note f = this
    show ?thesis
      proof (intro conjI exI)
        show "es = [] @ [Fetch (image_params.name a) (Inr resp), FileWrite path chunks,
                          ImageCreate a ans] @ []"
          using f by simp
      qed (use f in simp_all)
  next
    case (continue w1 es1 es2)
    from Cons.prems(2) continue(2)
    consider "ImageCreate a ans \<in> set es1" | "ImageCreate a ans \<in> set es2" by auto
    then show ?thesis
    proof cases
      case 1
      from asset_events_params [OF continue(1) 1]
      obtain resp path chunks where
        "image_params.type a = ''fwasset''" "encoding a = ''plain''" "\<not> encapsulated a"
        "image_params.name a = u" "project a = MissingFirmwareAssetError.projectId k"
        "es1 = [Fetch u (Inr resp), FileWrite path chunks, ImageCreate a ans]"
        "ok resp" "fetch_response.body resp = Some (Stream chunks None)"
        "content (file' a) = chunks" by blast
      note f = this continue(2)
      show ?thesis
      proof (intro conjI exI)
        show "es = [] @ [Fetch (image_params.name a) (Inr resp), FileWrite path chunks,
                          ImageCreate a ans] @ es2"
          using f by simp
      qed (use f in simp_all)
    next
      case 2
      from Cons.IH [OF continue(4) 2]
      obtain before after resp path chunks where *:
        "image_params.type a = ''fwasset''" "encoding a = ''plain''" "\<not> encapsulated a"
        "image_params.name a \<in> set urls" "project a = MissingFirmwareAssetError.projectId k"
        "es2 = before @ [Fetch (image_params.name a) (Inr resp), FileWrite path chunks,
                          ImageCreate a ans] @ after"
        "ok resp" "fetch_response.body resp = Some (Stream chunks None)"
        "content (file' a) = chunks" by blast
      note f = * continue(2)
      show ?thesis
      proof (intro conjI exI)
        show "es = (es1 @ before) @ [Fetch (image_params.name a) (Inr resp), FileWrite path chunks,
                          ImageCreate a ans] @ after"
          using f by simp
      qed (use f in simp_all)
    qed
  qed
qed

subsection \<open>One creation request\<close>

declare create.simps [simp del]

lemma new_MissingFirmwareAssetError_fields:
  "MissingFirmwareAssetError.missingFwAssets (new_MissingFirmwareAssetError err) =
     RawMissingFirmwareAssetError.missingFwAssets err"
  "MissingFirmwareAssetError.projectId (new_MissingFirmwareAssetError err) =
     RawMissingFirmwareAssetError.projectId err"
  "message (new_MissingFirmwareAssetError err) = RawSDKError.error err"
  "CorelliumSDKError.errorID (new_MissingFirmwareAssetError err) = RawSDKError.errorID err"
  "CorelliumSDKError.field (new_MissingFirmwareAssetError err) = RawSDKError.field err"
  by (simp_all add: new_MissingFirmwareAssetError_def new_CorelliumSDKError_def
        CorelliumSDKError.extend_def MissingFirmwareAssetError.fields_def)

lemma create_remediating:
  assumes "api_POST p (history w) (request_of params) = Inr response"
    and "response.error response = Some err"
    and "RawMissingFirmwareAssetError.missingFwAssets err = Some urls"
    and "env_FETCH_FIRMWARE_ASSETS p (history w @ [ApiPost (request_of params)]) = Some ''1''"
  shows "create (Suc n) p params w =
           (case remediate_loop p (new_MissingFirmwareAssetError err) urls
                   (emit (ApiPost (request_of params)) w) of
              (Inl e, w2) \<Rightarrow> (Some (Inl e), w2)
            | (Inr u, w2) \<Rightarrow>
                create n p \<lparr> create_params.patches = Some (resolved_patches params),
                             create_params.body = create_params.body params \<rparr> w2)"
  using assms
  by (simp add: create.simps Let_def history_emit remediate_def
        new_MissingFirmwareAssetError_fields)

lemma create_disabled:
  assumes "api_POST p (history w) (request_of params) = Inr response"
    and "response.error response = Some err"
    and "RawMissingFirmwareAssetError.missingFwAssets err \<noteq> None"
    and "env_FETCH_FIRMWARE_ASSETS p (history w @ [ApiPost (request_of params)]) \<noteq> Some ''1''"
  shows "create (Suc n) p params w =
           (Some (Inl (JsError remediation_disabled_message)),
            emit (ApiPost (request_of params)) w)"
  using assms by (simp add: create.simps Let_def history_emit)

lemma create_generic:
  assumes "api_POST p (history w) (request_of params) = Inr response"
    and "response.error response = Some err"
    and "RawMissingFirmwareAssetError.missingFwAssets err = None"
  shows "create (Suc n) p params w =
           (Some (Inl (SDKError (new_CorelliumSDKError err))),
            emit (ApiPost (request_of params)) w)"
  using assms by (simp add: create.simps Let_def)

lemma create_extends:
  "\<exists>es. history (snd (create n p params w)) = history w @ es
        \<and> (0 < n \<longrightarrow> (\<exists>es'. es = ApiPost (request_of params) # es'))"
proof (induction n arbitrary: params w)
  case 0
  show ?case by (simp add: create.simps)
next
  case (Suc n)
  let ?w1 = "emit (ApiPost (request_of params)) w"
  let ?retry = "\<lparr> create_params.patches = Some (resolved_patches params),
                  create_params.body = create_params.body params \<rparr>"
  show ?case
  proof (cases "api_POST p (history w) (request_of params)")
    case (Inl e)
    then show ?thesis by (simp add: create.simps Let_def history_emit)
  next
    case (Inr response)
    show ?thesis
    proof (cases "response.error response")
      case None
      with Inr show ?thesis by (simp add: create.simps Let_def history_emit)
    next
      case (Some err)
      show ?thesis
      proof (cases "RawMissingFirmwareAssetError.missingFwAssets err")
        case None
        from create_generic [OF Inr Some None] show ?thesis by (simp add: history_emit)
      next
        case urls: (Some urls)
        show ?thesis
        proof (cases "env_FETCH_FIRMWARE_ASSETS p (history w @ [ApiPost (request_of params)])
                        = Some ''1''")
          case False
          from create_disabled [OF Inr Some _ False] urls show ?thesis
            by (simp add: history_emit)
        next
          case True
          note eq = create_remediating [OF Inr Some urls True, of n]
          obtain r w2 where loop:
            "remediate_loop p (new_MissingFirmwareAssetError err) urls ?w1 = (r, w2)"
            by (cases "remediate_loop p (new_MissingFirmwareAssetError err) urls ?w1")
          from remediate_loop_extends [of p "new_MissingFirmwareAssetError err" urls ?w1] loop
          obtain es1 where es1: "history w2 = history ?w1 @ es1" by auto
          show ?thesis
          proof (cases r)
            case (Inl e)
            with eq loop es1 show ?thesis by (simp add: history_emit)
          next
            case (Inr u)
            from Suc.IH [of ?retry w2] obtain es2
              where "history (snd (create n p ?retry w2)) = history w2 @ es2" by blast
            with eq loop es1 Inr show ?thesis by (simp add: history_emit)
          qed
        qed
      qed
    qed
  qed
qed

lemma create_Suc_cases:
  assumes "history (snd (create (Suc n) p params w)) = history w @ es"
  obtains (settled) "es = [ApiPost (request_of params)]"
      and "fst (create (Suc n) p params w) \<noteq> None"
      and "files (snd (create (Suc n) p params w)) = files w"
    | (aborted) response err urls e es1 where
        "api_POST p (history w) (request_of params) = Inr response"
        "response.error response = Some err"
        "RawMissingFirmwareAssetError.missingFwAssets err = Some urls"
        "env_FETCH_FIRMWARE_ASSETS p (history w @ [ApiPost (request_of params)]) = Some ''1''"
        "es = ApiPost (request_of params) # es1"
        "history (snd (remediate_loop p (new_MissingFirmwareAssetError err) urls
            (emit (ApiPost (request_of params)) w)))
           = history (emit (ApiPost (request_of params)) w) @ es1"
        "fst (remediate_loop p (new_MissingFirmwareAssetError err) urls
            (emit (ApiPost (request_of params)) w)) = Inl e"
        "fst (create (Suc n) p params w) = Some (Inl e)"
    | (retried) response err urls es1 es2 w2 where
        "api_POST p (history w) (request_of params) = Inr response"
        "response.error response = Some err"
        "RawMissingFirmwareAssetError.missingFwAssets err = Some urls"
        "env_FETCH_FIRMWARE_ASSETS p (history w @ [ApiPost (request_of params)]) = Some ''1''"
        "es = ApiPost (request_of params) # es1 @ es2"
        "remediate_loop p (new_MissingFirmwareAssetError err) urls
            (emit (ApiPost (request_of params)) w) = (Inr (), w2)"
        "history w2 = history (emit (ApiPost (request_of params)) w) @ es1"
        "create (Suc n) p params w =
           create n p \<lparr> create_params.patches = Some (resolved_patches params),
                        create_params.body = create_params.body params \<rparr> w2"
        "history (snd (create n p \<lparr> create_params.patches = Some (resolved_patches params),
                        create_params.body = create_params.body params \<rparr> w2))
           = history w2 @ es2"
proof -
  let ?w1 = "emit (ApiPost (request_of params)) w"
  let ?retry = "\<lparr> create_params.patches = Some (resolved_patches params),
                  create_params.body = create_params.body params \<rparr>"
  show thesis
  proof (cases "api_POST p (history w) (request_of params)")
    case (Inl e)
    with assms show ?thesis
      by (intro settled) (simp_all add: create.simps Let_def history_emit files_emit)
  next
    case (Inr response)
    show ?thesis
    proof (cases "response.error response")
      case None
      with Inr assms show ?thesis
        by (intro settled) (simp_all add: create.simps Let_def history_emit files_emit)
    next
      case (Some err)
      show ?thesis
      proof (cases "RawMissingFirmwareAssetError.missingFwAssets err")
        case None
        from create_generic [OF Inr Some None, of n] assms show ?thesis
          by (intro settled) (simp_all add: history_emit files_emit)
      next
        case urls: (Some urls)
        show ?thesis
        proof (cases "env_FETCH_FIRMWARE_ASSETS p (history w @ [ApiPost (request_of params)])
                        = Some ''1''")
          case False
          from create_disabled [OF Inr Some _ False, of n] urls assms show ?thesis
            by (intro settled) (simp_all add: history_emit files_emit)
        next
          case True
          note eq = create_remediating [OF Inr Some urls True, of n]
          obtain r w2 where loop:
            "remediate_loop p (new_MissingFirmwareAssetError err) urls ?w1 = (r, w2)"
            by (cases "remediate_loop p (new_MissingFirmwareAssetError err) urls ?w1")
          from remediate_loop_extends [of p "new_MissingFirmwareAssetError err" urls ?w1] loop
          obtain es1 where es1: "history w2 = history ?w1 @ es1" by auto
          show ?thesis
          proof (cases r)
            case (Inl e)
            from eq loop Inl have res: "create (Suc n) p params w = (Some (Inl e), w2)"
              by simp
            with assms es1 have "es = ApiPost (request_of params) # es1"
              by (simp add: history_emit)
            with Inr Some urls True loop es1 Inl res show ?thesis
              by (intro aborted [of response err urls es1 e]) simp_all
          next
            case r: (Inr u)
            from eq loop r have res: "create (Suc n) p params w = create n p ?retry w2"
              by simp
            obtain es2 where es2: "history (snd (create n p ?retry w2)) = history w2 @ es2"
              using create_extends by blast
            with assms res es1 have "es = ApiPost (request_of params) # es1 @ es2"
              by (simp add: history_emit)
            with Inr Some urls True loop es1 r res es2 show ?thesis
              by (intro retried [of response err urls es1 es2 w2]) simp_all
          qed
        qed
      qed
    qed
  qed
qed

lemma create_remediating_moves_on:
  assumes "api_POST p (history w) (request_of params) = Inr response"
    and "response.error response = Some err"
    and "RawMissingFirmwareAssetError.missingFwAssets err = Some urls"
    and "env_FETCH_FIRMWARE_ASSETS p (history w @ [ApiPost (request_of params)]) = Some ''1''"
  shows "create (Suc n) p params w \<noteq> (Some r, emit (ApiPost (request_of params)) w)"
proof
  let ?w1 = "emit (ApiPost (request_of params)) w"
  let ?retry = "\<lparr> create_params.patches = Some (resolved_patches params),
                  create_params.body = create_params.body params \<rparr>"
  assume settled: "create (Suc n) p params w = (Some r, ?w1)"
  note eq = create_remediating [OF assms, of n]
  obtain r1 w2 where loop:
    "remediate_loop p (new_MissingFirmwareAssetError err) urls ?w1 = (r1, w2)"
    by (cases "remediate_loop p (new_MissingFirmwareAssetError err) urls ?w1")
  from remediate_loop_extends [of p "new_MissingFirmwareAssetError err" urls ?w1] loop
  obtain es1 where es1: "history w2 = history ?w1 @ es1" by auto
  show False
  proof (cases r1)
    case (Inl e)
    with loop es1 remediate_loop_thrown [of p "new_MissingFirmwareAssetError err" urls ?w1 e es1]
    have "es1 \<noteq> []" by simp
    moreover from eq loop Inl settled have "w2 = ?w1" by simp
    ultimately show False using es1 by simp
  next
    case (Inr u)
    with eq loop settled have *: "create n p ?retry w2 = (Some r, ?w1)" by simp
    show False
    proof (cases n)
      case 0
      with * show False by (simp add: create.simps)
    next
      case (Suc m)
      with create_extends [of n p ?retry w2] obtain es' where
        "history (snd (create n p ?retry w2)) = history w2 @ ApiPost (request_of ?retry) # es'"
        by auto
      with * es1 show False by simp
    qed
  qed
qed

lemma opt_in_decides:
  assumes "api_POST p (history w) (request_of params) = Inr response"
    and "response.error response = Some err"
    and "RawMissingFirmwareAssetError.missingFwAssets err \<noteq> None"
  shows "(create (Suc n) p params w =
            (Some (Inl (JsError remediation_disabled_message)),
             emit (ApiPost (request_of params)) w))
         \<longleftrightarrow> env_FETCH_FIRMWARE_ASSETS p (history w @ [ApiPost (request_of params)]) \<noteq> Some ''1''"
proof
  assume "create (Suc n) p params w =
            (Some (Inl (JsError remediation_disabled_message)),
             emit (ApiPost (request_of params)) w)"
  with create_remediating_moves_on [OF assms(1,2)] assms(3)
  show "env_FETCH_FIRMWARE_ASSETS p (history w @ [ApiPost (request_of params)]) \<noteq> Some ''1''"
    by fastforce
next
  assume "env_FETCH_FIRMWARE_ASSETS p (history w @ [ApiPost (request_of params)]) \<noteq> Some ''1''"
  from create_disabled [OF assms this]
  show "create (Suc n) p params w =
            (Some (Inl (JsError remediation_disabled_message)),
             emit (ApiPost (request_of params)) w)" .
qed

lemma remediate_new:
  "RawMissingFirmwareAssetError.missingFwAssets err = Some urls \<Longrightarrow>
   remediate p (new_MissingFirmwareAssetError err) w =
     remediate_loop p (new_MissingFirmwareAssetError err) urls w"
  by (simp add: remediate_def new_MissingFirmwareAssetError_fields)

subsection \<open>Requests in a history\<close>

lemma posted_append_Nil:
  "posted (xs @ ys) = [] \<longleftrightarrow> posted xs = [] \<and> posted ys = []"
  by (simp add: observers_append)

lemma posted_Cons_ApiPost: "posted (ApiPost r # es) = r # posted es"
  by (simp add: posted_def)

lemma skip_pass:
  assumes "xs @ ys = before @ ApiPost r # rest" and "posted xs = []"
  shows "\<exists>us. before = xs @ us \<and> ys = us @ ApiPost r # rest"
proof -
  from assms(1) obtain us where
    "(xs = before @ us \<and> us @ ys = ApiPost r # rest) \<or> (xs @ us = before \<and> ys = us @ ApiPost r # rest)"
    by (auto simp: append_eq_append_conv2)
  then show ?thesis
  proof
    assume *: "xs = before @ us \<and> us @ ys = ApiPost r # rest"
    show ?thesis
    proof (cases us)
      case Nil
      with * show ?thesis by simp
    next
      case (Cons u us')
      with * have "xs = before @ ApiPost r # us'" by simp
      with assms(2) show ?thesis by (simp add: observers_append posted_Cons_ApiPost)
    qed
  next
    assume "xs @ us = before \<and> ys = us @ ApiPost r # rest"
    then show ?thesis by auto
  qed
qed

lemma split_at_post:
  assumes "xs @ ys = xs' @ ApiPost r # rest" and "posted xs = []" and "posted xs' = []"
    and "ys = [] \<or> (\<exists>r' ys'. ys = ApiPost r' # ys')"
  shows "xs = xs' \<and> ys = ApiPost r # rest"
proof -
  from skip_pass [OF assms(1,2)] obtain us where us: "xs' = xs @ us" "ys = us @ ApiPost r # rest"
    by blast
  show ?thesis
  proof (cases us)
    case Nil
    with us show ?thesis by simp
  next
    case (Cons u us')
    with us(2) assms(4) obtain r' where "u = ApiPost r'" by auto
    with Cons us(1) assms(3) show ?thesis by (simp add: observers_append posted_Cons_ApiPost)
  qed
qed

lemma first_pass_params:
  assumes post: "api_POST p (history w) (request_of params) = Inr response"
      "response.error response = Some err"
      "RawMissingFirmwareAssetError.missingFwAssets err = Some urls"
    and loop: "history (snd (remediate_loop p (new_MissingFirmwareAssetError err) urls
            (emit (ApiPost (request_of params)) w)))
           = history (emit (ApiPost (request_of params)) w) @ es1"
    and a: "ImageCreate a ans \<in> set es1"
  shows "image_params.type a = ''fwasset'' \<and> encoding a = ''plain'' \<and> encapsulated a = False
     \<and> (\<exists>before pass after response err urls resp path chunks.
          ApiPost (request_of params) # es1 @ es2 =
            before @ ApiPost (request_of params) # pass @
              [Fetch (image_params.name a) (Inr resp), FileWrite path chunks,
               ImageCreate a ans] @ after
          \<and> posted pass = []
          \<and> api_POST p (history w @ before) (request_of params) = Inr response
          \<and> response.error response = Some err
          \<and> RawMissingFirmwareAssetError.missingFwAssets err = Some urls
          \<and> image_params.name a \<in> set urls
          \<and> project a = RawMissingFirmwareAssetError.projectId err
          \<and> ok resp \<and> fetch_response.body resp = Some (Stream chunks None)
          \<and> content (file' a) = chunks)"
proof -
  from remediate_loop_params [OF loop a]
  obtain b af resp path chunks where *:
    "image_params.type a = ''fwasset''" "encoding a = ''plain''" "\<not> encapsulated a"
    "image_params.name a \<in> set urls"
    "project a = RawMissingFirmwareAssetError.projectId err"
    "es1 = b @ [Fetch (image_params.name a) (Inr resp), FileWrite path chunks,
                ImageCreate a ans] @ af"
    "ok resp" "fetch_response.body resp = Some (Stream chunks None)"
    "content (file' a) = chunks"
    by (auto simp: new_MissingFirmwareAssetError_fields)
  from remediate_loop_posted [OF loop] *(6) have pb: "posted b = []"
    by (simp add: posted_append_Nil)
  have "\<exists>before pass after response err urls resp path chunks.
          ApiPost (request_of params) # es1 @ es2 =
            before @ ApiPost (request_of params) # pass @
              [Fetch (image_params.name a) (Inr resp), FileWrite path chunks,
               ImageCreate a ans] @ after
          \<and> posted pass = []
          \<and> api_POST p (history w @ before) (request_of params) = Inr response
          \<and> response.error response = Some err
          \<and> RawMissingFirmwareAssetError.missingFwAssets err = Some urls
          \<and> image_params.name a \<in> set urls
          \<and> project a = RawMissingFirmwareAssetError.projectId err
          \<and> ok resp \<and> fetch_response.body resp = Some (Stream chunks None)
          \<and> content (file' a) = chunks"
  proof (intro exI conjI)
    show "ApiPost (request_of params) # es1 @ es2 =
            [] @ ApiPost (request_of params) # b @
              [Fetch (image_params.name a) (Inr resp), FileWrite path chunks,
               ImageCreate a ans] @ (af @ es2)"
      using *(6) by simp
    show "api_POST p (history w @ []) (request_of params) = Inr response"
      using post(1) by simp
  qed (use * pb post in simp_all)
  with * show ?thesis by simp
qed

subsection \<open>Passes that cannot fail\<close>

lemma process_asset_succeeds:
  assumes "fetch p (history w) u = Inr resp"
    and "\<forall>chunks e. fetch_response.body resp \<noteq> Some (Stream chunks (Some e))"
    and "\<forall>h a. imageApi_create p h a = None"
  shows "fst (process_asset p k u w) = Inr ()"
proof (cases "ok resp \<and> fetch_response.body resp \<noteq> None")
  case False
  with assms(1) show ?thesis by (simp add: process_asset_skipped)
next
  case True
  then obtain chunks failure where b: "fetch_response.body resp = Some (Stream chunks failure)"
    by (cases "fetch_response.body resp") (auto intro: readable_stream.exhaust)
  with assms(2) have "failure = None" by (cases failure) auto
  with b True assms(1,3) show ?thesis
    by (simp add: process_asset_def Let_def fileFromPath_def emit_def)
qed

lemma remediate_loop_succeeds:
  assumes "\<forall>h u. \<exists>resp. fetch p h u = Inr resp
             \<and> (\<forall>chunks e. fetch_response.body resp \<noteq> Some (Stream chunks (Some e)))"
    and "\<forall>h a. imageApi_create p h a = None"
  shows "fst (remediate_loop p k urls w) = Inr ()"
proof (induction urls arbitrary: w)
  case Nil
  show ?case by simp
next
  case (Cons u urls)
  from assms(1) obtain resp where "fetch p (history w) u = Inr resp"
    and "\<forall>chunks e. fetch_response.body resp \<noteq> Some (Stream chunks (Some e))" by blast
  from process_asset_succeeds [OF this assms(2), of k]
  obtain w1 where "process_asset p k u w = (Inr (), w1)"
    by (cases "process_asset p k u w") auto
  with Cons.IH [of w1] show ?case by simp
qed

subsection \<open>Unfolding concrete runs\<close>

lemmas scenario_defs = scripted_def fresh_def failure_def success_def missing_def invalid_def
  delivers_def not_found_def d1_params_def fw1_def fw2_def upload_def

lemmas run_defs = create.simps Let_def remediate_def process_asset_def fileFromPath_def
  emit_def ok_def request_of_def resolved_patches_def new_MissingFirmwareAssetError_def
  new_CorelliumSDKError_def CorelliumSDKError.extend_def MissingFirmwareAssetError.fields_def
  posted_def fetched_def registered_def succeeded_def

section \<open>The claims\<close>

text \<open>
  C1 (as amended). Let the creation endpoint answer with an error payload. Then
  \<^verbatim>\<open>create\<close> rejects, right after the request, with a \<^verbatim>\<open>CorelliumSDKError\<close> whose
  message, errorID and field are those of the payload if and only if the payload carries
  no \<^verbatim>\<open>missingFwAssets\<close>. A payload that carries the list, empty or not, takes the
  missing-asset branch: the \<^verbatim>\<open>MissingFirmwareAssetError\<close> built from it keeps the list
  as it is and the project id, and \<^verbatim>\<open>create\<close> either remediates with that error (the
  variable is \<^verbatim>\<open>1\<close>) or rejects with the error about the variable.
\<close>

theorem create_classification:
  assumes "api_POST p (history w) (request_of params) = Inr response"
    and "response.error response = Some err"
  shows "((create (Suc n) p params w =
            (Some (Inl (SDKError (new_CorelliumSDKError err))),
             emit (ApiPost (request_of params)) w))
          \<longleftrightarrow> RawMissingFirmwareAssetError.missingFwAssets err = None)
       \<and> message (new_CorelliumSDKError err) = RawSDKError.error err
       \<and> CorelliumSDKError.errorID (new_CorelliumSDKError err) = RawSDKError.errorID err
       \<and> CorelliumSDKError.field (new_CorelliumSDKError err) = RawSDKError.field err
       \<and> (\<forall>urls. RawMissingFirmwareAssetError.missingFwAssets err = Some urls \<longrightarrow>
             MissingFirmwareAssetError.missingFwAssets (new_MissingFirmwareAssetError err)
               = Some urls
           \<and> MissingFirmwareAssetError.projectId (new_MissingFirmwareAssetError err)
               = RawMissingFirmwareAssetError.projectId err
           \<and> create (Suc n) p params w =
               (if env_FETCH_FIRMWARE_ASSETS p (history w @ [ApiPost (request_of params)])
                     = Some ''1''
                then case remediate p (new_MissingFirmwareAssetError err)
                            (emit (ApiPost (request_of params)) w) of
                       (Inl e, w2) \<Rightarrow> (Some (Inl e), w2)
                     | (Inr u, w2) \<Rightarrow>
                         create n p \<lparr> create_params.patches = Some (resolved_patches params),
                                      create_params.body = create_params.body params \<rparr> w2
                else (Some (Inl (JsError remediation_disabled_message)),
                      emit (ApiPost (request_of params)) w)))"
proof (intro conjI allI impI)
  show "(create (Suc n) p params w =
            (Some (Inl (SDKError (new_CorelliumSDKError err))),
             emit (ApiPost (request_of params)) w))
          \<longleftrightarrow> RawMissingFirmwareAssetError.missingFwAssets err = None"
  proof
    assume g: "create (Suc n) p params w =
            (Some (Inl (SDKError (new_CorelliumSDKError err))),
             emit (ApiPost (request_of params)) w)"
    show "RawMissingFirmwareAssetError.missingFwAssets err = None"
    proof (rule ccontr)
      assume "RawMissingFirmwareAssetError.missingFwAssets err \<noteq> None"
      then obtain urls where urls:
        "RawMissingFirmwareAssetError.missingFwAssets err = Some urls" by auto
      show False
      proof (cases "env_FETCH_FIRMWARE_ASSETS p (history w @ [ApiPost (request_of params)])
                      = Some ''1''")
        case True
        from create_remediating_moves_on [OF assms urls True] g show False by blast
      next
        case False
        from create_disabled [OF assms _ False, of n] urls g show False by simp
      qed
    qed
  next
    assume "RawMissingFirmwareAssetError.missingFwAssets err = None"
    from create_generic [OF assms this]
    show "create (Suc n) p params w =
            (Some (Inl (SDKError (new_CorelliumSDKError err))),
             emit (ApiPost (request_of params)) w)" .
  qed
next
  fix urls
  assume urls: "RawMissingFirmwareAssetError.missingFwAssets err = Some urls"
  show "create (Suc n) p params w =
               (if env_FETCH_FIRMWARE_ASSETS p (history w @ [ApiPost (request_of params)])
                     = Some ''1''
                then case remediate p (new_MissingFirmwareAssetError err)
                            (emit (ApiPost (request_of params)) w) of
                       (Inl e, w2) \<Rightarrow> (Some (Inl e), w2)
                     | (Inr u, w2) \<Rightarrow>
                         create n p \<lparr> create_params.patches = Some (resolved_patches params),
                                      create_params.body = create_params.body params \<rparr> w2
                else (Some (Inl (JsError remediation_disabled_message)),
                      emit (ApiPost (request_of params)) w))"
  proof (cases "env_FETCH_FIRMWARE_ASSETS p (history w @ [ApiPost (request_of params)])
                      = Some ''1''")
    case True
    from create_remediating [OF assms urls True, of n] True show ?thesis
      by (simp add: remediate_new [OF urls])
  next
    case False
    from create_disabled [OF assms _ False, of n] urls False show ?thesis by simp
  qed
qed (simp_all add: new_CorelliumSDKError_def new_MissingFirmwareAssetError_fields)

theorem create_classification_witness:
  "api_POST rejects_flavor (history fresh) (request_of d1_params)
     = Inr \<lparr> data = None, response.error = Some invalid \<rparr>
   \<and> RawMissingFirmwareAssetError.missingFwAssets invalid = None
   \<and> create (Suc 0) rejects_flavor d1_params fresh =
       (Some (Inl (SDKError \<lparr> message = ''Invalid flavor'',
                               CorelliumSDKError.errorID = ''UserError'',
                               CorelliumSDKError.field = Value ''flavor'' \<rparr>)),
        emit (ApiPost (request_of d1_params)) fresh)
   \<and> api_POST both_reachable (history fresh) (request_of d1_params)
     = Inr \<lparr> data = None, response.error = Some (missing [fw1, fw2]) \<rparr>
   \<and> MissingFirmwareAssetError.missingFwAssets
       (new_MissingFirmwareAssetError (missing [fw1, fw2])) = Some [fw1, fw2]
   \<and> MissingFirmwareAssetError.projectId
       (new_MissingFirmwareAssetError (missing [fw1, fw2])) = Some ''p1''
   \<and> create (Suc 0) both_reachable d1_params fresh \<noteq>
       (Some (Inl (SDKError (new_CorelliumSDKError (missing [fw1, fw2])))),
        emit (ApiPost (request_of d1_params)) fresh)"
proof -
  have g: "api_POST rejects_flavor (history fresh) (request_of d1_params)
             = Inr \<lparr> data = None, response.error = Some invalid \<rparr>"
    and m: "api_POST both_reachable (history fresh) (request_of d1_params)
             = Inr \<lparr> data = None, response.error = Some (missing [fw1, fw2]) \<rparr>"
    by (simp_all add: rejects_flavor_def both_reachable_def scenario_defs posted_def)
  from create_classification [OF g, of invalid 0, THEN conjunct1]
  have c1: "create (Suc 0) rejects_flavor d1_params fresh =
       (Some (Inl (SDKError \<lparr> message = ''Invalid flavor'',
                               CorelliumSDKError.errorID = ''UserError'',
                               CorelliumSDKError.field = Value ''flavor'' \<rparr>)),
        emit (ApiPost (request_of d1_params)) fresh)"
    by (simp add: invalid_def new_CorelliumSDKError_def)
  from create_classification [OF m, of "missing [fw1, fw2]" 0, THEN conjunct1]
  have c2: "create (Suc 0) both_reachable d1_params fresh \<noteq>
       (Some (Inl (SDKError (new_CorelliumSDKError (missing [fw1, fw2])))),
        emit (ApiPost (request_of d1_params)) fresh)"
    by (simp add: missing_def)
  from g m c1 c2 show ?thesis
    by (simp add: invalid_def missing_def new_MissingFirmwareAssetError_fields)
qed

text \<open>
  C1 as stated fails for the empty list. The payload of \<open>nothing_listed\<close> carries
  \<^verbatim>\<open>missingFwAssets: []\<close>, a list that is not non-empty, and it is not turned into
  the generic error: with the variable unset \<^verbatim>\<open>create\<close> rejects with the error about
  the variable, and with the variable set it runs an empty remediation pass and posts
  the request again.
\<close>

theorem empty_asset_list_counterexample:
  "RawMissingFirmwareAssetError.missingFwAssets (missing []) = Some []
   \<and> api_POST (nothing_listed None) (history fresh) (request_of d1_params)
       = Inr \<lparr> data = None, response.error = Some (missing []) \<rparr>
   \<and> fst (create (Suc 0) (nothing_listed None) d1_params fresh)
       = Some (Inl (JsError remediation_disabled_message))
   \<and> fst (create (Suc 0) (nothing_listed None) d1_params fresh)
       \<noteq> Some (Inl (SDKError (new_CorelliumSDKError (missing []))))
   \<and> fst (create (Suc (Suc 0)) (nothing_listed (Some ''1'')) d1_params fresh)
       = Some (Inr (Some ''d1-instance''))
   \<and> history (snd (create (Suc (Suc 0)) (nothing_listed (Some ''1'')) d1_params fresh))
       = [ApiPost (request_of d1_params), ApiPost (request_of d1_params)]"
  by (simp add: nothing_listed_def scenario_defs run_defs)

text \<open>
  C2 (as amended). Remediation is enabled and the creation request fails with the missing
  assets \<open>[u1, u2]\<close>. Then what \<^verbatim>\<open>create\<close> does next is the turn of \<open>u1\<close>: its
  fetch and, only when the fetch answered successfully with a body that was transferred
  completely, its scratch file and its registration. When that turn raised (a rejected
  fetch, a broken transfer, a rejected registration), \<^verbatim>\<open>create\<close> rejects with the same
  error and nothing else has happened: \<open>u2\<close> is not fetched and no request follows.
  Otherwise the turn of \<open>u2\<close> comes next, after everything done for \<open>u1\<close>, with the
  same alternatives; and when it too ended normally, the next thing is the creation
  request again, equal to the first one (\<open>request_of params\<close>: the same other
  properties and the same resolved patches). No behaviour of the outside world is
  assumed; the scratch file, once written, is read back from the store.
\<close>

theorem two_assets_in_order:
  assumes "api_POST p (history w) (request_of params) = Inr response"
    and "response.error response = Some err"
    and "RawMissingFirmwareAssetError.missingFwAssets err = Some [u1, u2]"
    and "env_FETCH_FIRMWARE_ASSETS p (history w @ [ApiPost (request_of params)]) = Some ''1''"
  shows "\<exists>r1 turn1.
           asset_events (new_MissingFirmwareAssetError err) u1 r1 turn1
         \<and> fetched turn1 = [u1] \<and> set (registered turn1) \<subseteq> {u1}
         \<and> (\<forall>e. r1 = Inl e \<longrightarrow>
                fst (create (Suc (Suc n)) p params w) = Some (Inl e)
              \<and> history (snd (create (Suc (Suc n)) p params w))
                  = history w @ ApiPost (request_of params) # turn1)
         \<and> (r1 = Inr () \<longrightarrow>
               registered turn1 = succeeded turn1
             \<and> (\<exists>r2 turn2.
                   asset_events (new_MissingFirmwareAssetError err) u2 r2 turn2
                 \<and> fetched turn2 = [u2] \<and> set (registered turn2) \<subseteq> {u2}
                 \<and> (\<forall>e. r2 = Inl e \<longrightarrow>
                        fst (create (Suc (Suc n)) p params w) = Some (Inl e)
                      \<and> history (snd (create (Suc (Suc n)) p params w))
                          = history w @ ApiPost (request_of params) # turn1 @ turn2)
                 \<and> (r2 = Inr () \<longrightarrow>
                       registered turn2 = succeeded turn2
                     \<and> (\<exists>rest. history (snd (create (Suc (Suc n)) p params w))
                          = history w @ ApiPost (request_of params) # turn1 @ turn2
                              @ ApiPost (request_of params) # rest))))"
proof -
  let ?k = "new_MissingFirmwareAssetError err"
  let ?req = "request_of params"
  let ?w1 = "emit (ApiPost ?req) w"
  let ?retry = "\<lparr> create_params.patches = Some (resolved_patches params),
                  create_params.body = create_params.body params \<rparr>"
  note eq = create_remediating [OF assms, of "Suc n"]
  obtain r1 wa where a: "process_asset p ?k u1 ?w1 = (r1, wa)"
    by (cases "process_asset p ?k u1 ?w1")
  from process_asset_events [of p ?k u1 ?w1] a
  obtain turn1 where t1: "history wa = history ?w1 @ turn1" "asset_events ?k u1 r1 turn1"
    by auto
  obtain r2 wb where b: "process_asset p ?k u2 wa = (r2, wb)"
    by (cases "process_asset p ?k u2 wa")
  from process_asset_events [of p ?k u2 wa] b
  obtain turn2 where t2: "history wb = history wa @ turn2" "asset_events ?k u2 r2 turn2"
    by auto
  note o1 = asset_events_fetched [OF t1(2)] asset_events_registered_subset [OF t1(2)]
  note o2 = asset_events_fetched [OF t2(2)] asset_events_registered_subset [OF t2(2)]
  have reg1: "registered turn1 = succeeded turn1" if "r1 = Inr ()"
    using that t1(2) by (simp add: asset_events_registered)
  have reg2: "registered turn2 = succeeded turn2" if "r2 = Inr ()"
    using that t2(2) by (simp add: asset_events_registered)
  have stop1: "fst (create (Suc (Suc n)) p params w) = Some (Inl e)
      \<and> history (snd (create (Suc (Suc n)) p params w)) = history w @ ApiPost ?req # turn1"
    if "r1 = Inl e" for e
    using that eq a t1 by (simp add: history_emit)
  have stop2: "fst (create (Suc (Suc n)) p params w) = Some (Inl e)
      \<and> history (snd (create (Suc (Suc n)) p params w))
          = history w @ ApiPost ?req # turn1 @ turn2"
    if "r1 = Inr ()" "r2 = Inl e" for e
    using that eq a b t1 t2 by (simp add: history_emit)
  have again: "\<exists>rest. history (snd (create (Suc (Suc n)) p params w))
          = history w @ ApiPost ?req # turn1 @ turn2 @ ApiPost ?req # rest"
    if "r1 = Inr ()" "r2 = Inr ()"
  proof -
    from that eq a b have "create (Suc (Suc n)) p params w = create (Suc n) p ?retry wb"
      by simp
    moreover from create_extends [of "Suc n" p ?retry wb] obtain rest where
      "history (snd (create (Suc n) p ?retry wb)) = history wb @ ApiPost ?req # rest"
      by (auto simp: request_of_retry)
    ultimately show ?thesis using t1 t2 by (simp add: history_emit)
  qed
  from stop2 again t2(2) o2 reg2
  have second: "r1 = Inr () \<longrightarrow>
               (\<exists>r2 turn2.
                   asset_events ?k u2 r2 turn2
                 \<and> fetched turn2 = [u2] \<and> set (registered turn2) \<subseteq> {u2}
                 \<and> (\<forall>e. r2 = Inl e \<longrightarrow>
                        fst (create (Suc (Suc n)) p params w) = Some (Inl e)
                      \<and> history (snd (create (Suc (Suc n)) p params w))
                          = history w @ ApiPost ?req # turn1 @ turn2)
                 \<and> (r2 = Inr () \<longrightarrow>
                       registered turn2 = succeeded turn2
                     \<and> (\<exists>rest. history (snd (create (Suc (Suc n)) p params w))
                          = history w @ ApiPost ?req # turn1 @ turn2
                              @ ApiPost ?req # rest)))"
    by blast
  from t1(2) o1 stop1 reg1 second show ?thesis by blast
qed

theorem two_assets_in_order_witness:
  "api_POST both_reachable (history fresh) (request_of d1_params)
     = Inr \<lparr> data = None, response.error = Some (missing [fw1, fw2]) \<rparr>
   \<and> env_FETCH_FIRMWARE_ASSETS both_reachable (history fresh @ [ApiPost (request_of d1_params)])
     = Some ''1''
   \<and> fst (create (Suc (Suc 0)) both_reachable d1_params fresh) = Some (Inr (Some ''d1-instance''))
   \<and> history (snd (create (Suc (Suc 0)) both_reachable d1_params fresh)) =
       [ApiPost (request_of d1_params),
        Fetch fw1 (delivers ''firmware''), FileWrite ''/tmp/00.fwasset'' ''firmware'',
        ImageCreate (upload fw1 ''00'' 3) None,
        Fetch fw2 (delivers ''firmware''), FileWrite ''/tmp/00000.fwasset'' ''firmware'',
        ImageCreate (upload fw2 ''00000'' 6) None,
        ApiPost (request_of d1_params)]
   \<and> request_of d1_params =
       \<lparr> spread_body = [(''project'', ''p1''), (''name'', ''d1''), (''flavor'', ''ranchu''),
                        (''os'', ''14.0.0'')],
         patches_list = [jailbroken] \<rparr>"
proof -
  have post: "api_POST both_reachable (history fresh) (request_of d1_params)
     = Inr \<lparr> data = None, response.error = Some (missing [fw1, fw2]) \<rparr>"
    and err: "response.error (\<lparr> data = None, response.error = Some (missing [fw1, fw2]) \<rparr>
                :: string response) = Some (missing [fw1, fw2])"
    and listed: "RawMissingFirmwareAssetError.missingFwAssets (missing [fw1, fw2])
                   = Some [fw1, fw2]"
    and enabled: "env_FETCH_FIRMWARE_ASSETS both_reachable
                    (history fresh @ [ApiPost (request_of d1_params)]) = Some ''1''"
    by (simp_all add: both_reachable_def scripted_def failure_def missing_def posted_def
          fresh_def)
  note turns = two_assets_in_order [OF post err listed enabled, of 0]
  have run: "fst (create (Suc (Suc 0)) both_reachable d1_params fresh)
       = Some (Inr (Some ''d1-instance''))
   \<and> history (snd (create (Suc (Suc 0)) both_reachable d1_params fresh)) =
       [ApiPost (request_of d1_params),
        Fetch fw1 (delivers ''firmware''), FileWrite ''/tmp/00.fwasset'' ''firmware'',
        ImageCreate (upload fw1 ''00'' 3) None,
        Fetch fw2 (delivers ''firmware''), FileWrite ''/tmp/00000.fwasset'' ''firmware'',
        ImageCreate (upload fw2 ''00000'' 6) None,
        ApiPost (request_of d1_params)]"
    by (simp add: both_reachable_def scenario_defs run_defs)
  have req: "request_of d1_params =
       \<lparr> spread_body = [(''project'', ''p1''), (''name'', ''d1''), (''flavor'', ''ranchu''),
                        (''os'', ''14.0.0'')],
         patches_list = [jailbroken] \<rparr>"
    by (simp add: request_of_def resolved_patches_def d1_params_def)
  from turns post enabled run req show ?thesis by blast
qed

text \<open>
  C2 as stated fails when an asset cannot be had. In \<open>first_unreachable\<close> the first
  asset answers 404: it is fetched, never registered, and the request is posted again
  all the same. In \<open>registration_rejected\<close> the image API rejects the first asset:
  the second asset is never fetched and no request follows.
\<close>

theorem first_asset_not_registered_counterexample:
  "api_POST first_unreachable (history fresh) (request_of d1_params)
     = Inr \<lparr> data = None, response.error = Some (missing [fw1, fw2]) \<rparr>
   \<and> env_FETCH_FIRMWARE_ASSETS first_unreachable
       (history fresh @ [ApiPost (request_of d1_params)]) = Some ''1''
   \<and> fetched (history (snd (create (Suc (Suc 0)) first_unreachable d1_params fresh)))
       = [fw1, fw2, fw1, fw2]
   \<and> registered (history (snd (create (Suc (Suc 0)) first_unreachable d1_params fresh)))
       = [fw2, fw2]
   \<and> posted (history (snd (create (Suc (Suc 0)) first_unreachable d1_params fresh)))
       = [request_of d1_params, request_of d1_params]
   \<and> api_POST registration_rejected (history fresh) (request_of d1_params)
     = Inr \<lparr> data = None, response.error = Some (missing [fw1, fw2]) \<rparr>
   \<and> env_FETCH_FIRMWARE_ASSETS registration_rejected
       (history fresh @ [ApiPost (request_of d1_params)]) = Some ''1''
   \<and> fst (create (Suc (Suc 0)) registration_rejected d1_params fresh)
       = Some (Inl (JsError ''Upload failed''))
   \<and> fetched (history (snd (create (Suc (Suc 0)) registration_rejected d1_params fresh)))
       = [fw1]
   \<and> posted (history (snd (create (Suc (Suc 0)) registration_rejected d1_params fresh)))
       = [request_of d1_params]"
  by (simp add: first_unreachable_def registration_rejected_def scenario_defs run_defs)

text \<open>
  C3. When a creation request fails with a payload that carries \<^verbatim>\<open>missingFwAssets\<close>
  and the variable \<^verbatim>\<open>FETCH_FIRMWARE_ASSETS\<close> is not \<^verbatim>\<open>1\<close>, \<^verbatim>\<open>create\<close>
  rejects with the error that tells the caller to set the variable, and it has done
  nothing but the request: no fetch, no file, no registration.
\<close>

theorem disabled_remediation_rejects:
  assumes "api_POST p (history w) (request_of params) = Inr response"
    and "response.error response = Some err"
    and "RawMissingFirmwareAssetError.missingFwAssets err \<noteq> None"
    and "env_FETCH_FIRMWARE_ASSETS p (history w @ [ApiPost (request_of params)]) \<noteq> Some ''1''"
  shows "fst (create (Suc n) p params w) = Some (Inl (JsError remediation_disabled_message))
       \<and> history (snd (create (Suc n) p params w)) = history w @ [ApiPost (request_of params)]
       \<and> files (snd (create (Suc n) p params w)) = files w"
  using create_disabled [OF assms, of n] by (simp add: history_emit files_emit)

theorem disabled_remediation_rejects_witness:
  "api_POST never_enabled (history fresh) (request_of d1_params)
     = Inr \<lparr> data = None, response.error = Some (missing [fw1]) \<rparr>
   \<and> env_FETCH_FIRMWARE_ASSETS never_enabled (history fresh @ [ApiPost (request_of d1_params)])
     = Some ''true''
   \<and> fst (create (Suc 0) never_enabled d1_params fresh)
     = Some (Inl (JsError remediation_disabled_message))
   \<and> history (snd (create (Suc 0) never_enabled d1_params fresh))
     = [ApiPost (request_of d1_params)]
   \<and> files (snd (create (Suc 0) never_enabled d1_params fresh)) = Map.empty"
  using disabled_remediation_rejects [of never_enabled fresh d1_params
      "\<lparr> data = None, response.error = Some (missing [fw1]) \<rparr>" "missing [fw1]" 0]
  by (simp add: never_enabled_def scripted_def fresh_def failure_def missing_def posted_def
        create.simps)

text \<open>
  C4. Nothing bounds the retries. When remediation is enabled, every creation request
  is answered with a list of missing assets, and no fetch, transfer or registration
  fails, a run of \<^verbatim>\<open>create\<close> that is allowed \<open>n\<close> creation requests makes all
  \<open>n\<close> of them and has not settled, whatever \<open>n\<close> is.
\<close>

theorem create_never_settles:
  assumes "\<forall>h. env_FETCH_FIRMWARE_ASSETS p h = Some ''1''"
    and "\<forall>h r. \<exists>response err urls. api_POST p h r = Inr response
           \<and> response.error response = Some err
           \<and> RawMissingFirmwareAssetError.missingFwAssets err = Some urls"
    and "\<forall>h u. \<exists>resp. fetch p h u = Inr resp
             \<and> (\<forall>chunks e. fetch_response.body resp \<noteq> Some (Stream chunks (Some e)))"
    and "\<forall>h a. imageApi_create p h a = None"
  shows "fst (create n p params w) = None
       \<and> posted (history (snd (create n p params w)))
           = posted (history w) @ replicate n (request_of params)"
proof (induction n arbitrary: params w)
  case 0
  show ?case by (simp add: create.simps)
next
  case (Suc n)
  let ?req = "request_of params"
  let ?w1 = "emit (ApiPost ?req) w"
  let ?retry = "\<lparr> create_params.patches = Some (resolved_patches params),
                  create_params.body = create_params.body params \<rparr>"
  from assms(2) obtain response err urls where post:
    "api_POST p (history w) ?req = Inr response" "response.error response = Some err"
    "RawMissingFirmwareAssetError.missingFwAssets err = Some urls" by blast
  from assms(1) have env: "env_FETCH_FIRMWARE_ASSETS p (history w @ [ApiPost ?req]) = Some ''1''"
    by simp
  obtain w2 where loop:
    "remediate_loop p (new_MissingFirmwareAssetError err) urls ?w1 = (Inr (), w2)"
    using remediate_loop_succeeds [OF assms(3,4), of "new_MissingFirmwareAssetError err" urls ?w1]
    by (cases "remediate_loop p (new_MissingFirmwareAssetError err) urls ?w1") auto
  from remediate_loop_extends [of p "new_MissingFirmwareAssetError err" urls ?w1] loop
  obtain es1 where es1: "history w2 = history ?w1 @ es1" by auto
  with loop have "history (snd (remediate_loop p (new_MissingFirmwareAssetError err) urls ?w1))
      = history ?w1 @ es1" by simp
  from remediate_loop_posted [OF this] es1
  have "posted (history w2) = posted (history w) @ [?req]"
    by (simp add: history_emit observers_append posted_Cons_ApiPost observers_Nil)
  moreover from create_remediating [OF post env, of n] loop
  have "create (Suc n) p params w = create n p ?retry w2" by simp
  ultimately show ?case
    using Suc.IH [of ?retry w2] by (simp add: request_of_retry)
qed

theorem create_never_settles_witness:
  "(\<forall>h. env_FETCH_FIRMWARE_ASSETS unreachable_asset h = Some ''1'')
   \<and> (\<forall>h r. api_POST unreachable_asset h r
          = Inr \<lparr> data = None, response.error = Some (missing [fw1]) \<rparr>)
   \<and> (\<forall>h u. fetch unreachable_asset h u = not_found)
   \<and> fst (create (Suc (Suc (Suc 0))) unreachable_asset d1_params fresh) = None
   \<and> posted (history (snd (create (Suc (Suc (Suc 0))) unreachable_asset d1_params fresh)))
       = [request_of d1_params, request_of d1_params, request_of d1_params]
   \<and> fetched (history (snd (create (Suc (Suc (Suc 0))) unreachable_asset d1_params fresh)))
       = [fw1, fw1, fw1]"
proof -
  have env: "\<forall>h. env_FETCH_FIRMWARE_ASSETS unreachable_asset h = Some ''1''"
    and post: "\<forall>h r. api_POST unreachable_asset h r
          = Inr \<lparr> data = None, response.error = Some (missing [fw1]) \<rparr>"
    and fetch: "\<forall>h u. fetch unreachable_asset h u = not_found"
    and reg: "\<forall>h a. imageApi_create unreachable_asset h a = None"
    by (simp_all add: unreachable_asset_def scripted_def failure_def)
  have "fst (create (Suc (Suc (Suc 0))) unreachable_asset d1_params fresh) = None
      \<and> posted (history (snd (create (Suc (Suc (Suc 0))) unreachable_asset d1_params fresh)))
          = posted (history (fresh :: (string \<times> string) list world))
              @ replicate (Suc (Suc (Suc 0))) (request_of d1_params)"
    using env post fetch reg
    by (intro create_never_settles) (simp_all add: missing_def not_found_def)
  moreover have "fetched (history (snd (create (Suc (Suc (Suc 0))) unreachable_asset d1_params fresh)))
       = [fw1, fw1, fw1]"
    by (simp add: unreachable_asset_def scenario_defs run_defs)
  ultimately show ?thesis using env post fetch
    by (simp add: fresh_def observers_Nil)
qed

text \<open>
  C5. Take any run of \<^verbatim>\<open>create\<close> and two creation requests in its history with no
  creation request between them. The first was answered with an error payload that
  lists missing assets; between the two requests every URL of that list was fetched,
  in the order of the list, and the registrations made are those of the URLs whose
  fetch gave a successful response with a body; and both requests are the request of
  the call.
\<close>

theorem every_asset_before_retry:
  assumes "history (snd (create n p params w)) = history w @ es"
    and "es = before @ ApiPost r1 # pass @ ApiPost r2 # after"
    and "posted pass = []"
  shows "r1 = request_of params \<and> r2 = request_of params
       \<and> (\<exists>response err urls.
             api_POST p (history w @ before) r1 = Inr response
           \<and> response.error response = Some err
           \<and> RawMissingFirmwareAssetError.missingFwAssets err = Some urls
           \<and> fetched pass = urls
           \<and> registered pass = succeeded pass)"
  using assms
proof (induction n arbitrary: params w es before)
  case 0
  then show ?case by (simp add: create.simps)
next
  case (Suc n)
  let ?req = "request_of params"
  let ?retry = "\<lparr> create_params.patches = Some (resolved_patches params),
                  create_params.body = create_params.body params \<rparr>"
  from Suc.prems(1) show ?case
  proof (cases rule: create_Suc_cases)
    case settled
    with Suc.prems(2) show ?thesis by (cases before) simp_all
  next
    case (aborted response err urls e' es1)
    from remediate_loop_posted [OF aborted(6)] aborted(5)
    have "posted es = [?req]" by (simp add: posted_Cons_ApiPost)
    with Suc.prems(2) show ?thesis by (simp add: observers_append posted_Cons_ApiPost)
  next
    case (retried response err urls es1 es2 w2)
    from retried(6,7)
    have loop: "history (snd (remediate_loop p (new_MissingFirmwareAssetError err) urls
            (emit (ApiPost ?req) w)))
           = history (emit (ApiPost ?req) w) @ es1"
      and completed: "fst (remediate_loop p (new_MissingFirmwareAssetError err) urls
            (emit (ApiPost ?req) w)) = Inr ()" by simp_all
    note p1 = remediate_loop_posted [OF loop]
    from create_extends [of n p ?retry w2] retried(9)
    have es2: "es2 = [] \<or> (\<exists>r' ys'. es2 = ApiPost r' # ys')"
      by (cases n) (auto simp: create.simps)
    show ?thesis
    proof (cases before)
      case Nil
      with Suc.prems(2) retried(5)
      have r1: "r1 = ?req" and eq: "es1 @ es2 = pass @ ApiPost r2 # after" by simp_all
      from split_at_post [OF eq p1 Suc.prems(3) es2]
      have "es1 = pass" and e2: "es2 = ApiPost r2 # after" by simp_all
      from e2 retried(9) create_extends [of n p ?retry w2] have "r2 = ?req"
        by (cases n) (auto simp: create.simps request_of_retry)
      moreover from remediate_loop_complete [OF completed loop] \<open>es1 = pass\<close>
      have "fetched pass = urls" "registered pass = succeeded pass" by simp_all
      ultimately show ?thesis using r1 Nil retried(1,2,3) by simp
    next
      case (Cons b before')
      with Suc.prems(2) retried(5)
      have "es1 @ es2 = before' @ ApiPost r1 # pass @ ApiPost r2 # after"
        and b: "b = ApiPost ?req" by simp_all
      from skip_pass [OF this(1) p1] obtain us where
        us: "before' = es1 @ us" "es2 = us @ ApiPost r1 # pass @ ApiPost r2 # after" by blast
      from Suc.IH [OF retried(9) us(2) Suc.prems(3)]
      obtain response' err' urls' where
        "r1 = ?req" "r2 = ?req"
        "api_POST p (history w2 @ us) r1 = Inr response'"
        "response.error response' = Some err'"
        "RawMissingFirmwareAssetError.missingFwAssets err' = Some urls'"
        "fetched pass = urls'" "registered pass = succeeded pass"
        unfolding request_of_retry by blast
      moreover have "history w2 @ us = history w @ before"
        using retried(7) Cons b us(1) by (simp add: history_emit)
      ultimately show ?thesis by simp
    qed
  qed
qed

theorem every_asset_before_retry_witness:
  "history (snd (create (Suc (Suc 0)) first_unreachable d1_params fresh)) =
     history fresh @ [] @ ApiPost (request_of d1_params) #
       [Fetch fw1 not_found, Fetch fw2 (delivers ''firmware''),
        FileWrite ''/tmp/000.fwasset'' ''firmware'', ImageCreate (upload fw2 ''000'' 4) None] @
       ApiPost (request_of d1_params) #
       [Fetch fw1 not_found, Fetch fw2 (delivers ''firmware''),
        FileWrite ''/tmp/00000000.fwasset'' ''firmware'',
        ImageCreate (upload fw2 ''00000000'' 9) None]
   \<and> posted [Fetch fw1 not_found, Fetch fw2 (delivers ''firmware''),
        FileWrite ''/tmp/000.fwasset'' ''firmware'',
        ImageCreate (upload fw2 ''000'' 4) None :: (string \<times> string) list event] = []
   \<and> fetched [Fetch fw1 not_found, Fetch fw2 (delivers ''firmware''),
        FileWrite ''/tmp/000.fwasset'' ''firmware'',
        ImageCreate (upload fw2 ''000'' 4) None :: (string \<times> string) list event] = [fw1, fw2]
   \<and> registered [Fetch fw1 not_found, Fetch fw2 (delivers ''firmware''),
        FileWrite ''/tmp/000.fwasset'' ''firmware'',
        ImageCreate (upload fw2 ''000'' 4) None :: (string \<times> string) list event] = [fw2]
   \<and> succeeded [Fetch fw1 not_found, Fetch fw2 (delivers ''firmware''),
        FileWrite ''/tmp/000.fwasset'' ''firmware'',
        ImageCreate (upload fw2 ''000'' 4) None :: (string \<times> string) list event] = [fw2]"
proof -
  let ?pass = "[Fetch fw1 not_found, Fetch fw2 (delivers ''firmware''),
        FileWrite ''/tmp/000.fwasset'' ''firmware'',
        ImageCreate (upload fw2 ''000'' 4) None] :: (string \<times> string) list event list"
  let ?after = "[Fetch fw1 not_found, Fetch fw2 (delivers ''firmware''),
        FileWrite ''/tmp/00000000.fwasset'' ''firmware'',
        ImageCreate (upload fw2 ''00000000'' 9) None] :: (string \<times> string) list event list"
  have run: "history (snd (create (Suc (Suc 0)) first_unreachable d1_params fresh)) =
     history fresh @ ([] @ ApiPost (request_of d1_params) # ?pass @
       ApiPost (request_of d1_params) # ?after)"
    by (simp add: first_unreachable_def scenario_defs run_defs)
  have quiet: "posted ?pass = []"
    by (simp add: posted_def)
  from every_asset_before_retry [OF run refl quiet]
  have "fetched ?pass = [fw1, fw2]" and "registered ?pass = succeeded ?pass"
    by (simp_all add: first_unreachable_def scripted_def failure_def missing_def)
  moreover have "succeeded ?pass = [fw2]"
    by (simp add: succeeded_def scenario_defs ok_def)
  ultimately show ?thesis using run quiet by simp
qed

text \<open>
  C6. A fetch that answers with a status outside 200..299, or without a body, is
  skipped: the turn of the loop ends normally, the only trace it leaves is the fetch
  itself (no file is written, nothing is registered), and the loop goes on with the
  URLs that remain.
\<close>

theorem unsuccessful_fetch_is_skipped:
  assumes "fetch p (history w) u = Inr resp"
    and "\<not> ok resp \<or> fetch_response.body resp = None"
  shows "process_asset p k u w = (Inr (), emit (Fetch u (Inr resp)) w)
       \<and> remediate_loop p k (u # urls) w = remediate_loop p k urls (emit (Fetch u (Inr resp)) w)
       \<and> history (emit (Fetch u (Inr resp)) w) = history w @ [Fetch u (Inr resp)]
       \<and> files (emit (Fetch u (Inr resp)) w) = files w"
proof -
  from assms have "process_asset p k u w = (Inr (), emit (Fetch u (Inr resp)) w)"
    by (intro process_asset_skipped) auto
  then show ?thesis by (simp add: history_emit files_emit)
qed

theorem unsuccessful_fetch_is_skipped_witness:
  "fetch first_unreachable (history fresh) fw1
     = Inr \<lparr> status = 404, fetch_response.body = Some (Stream ''Not Found'' None) \<rparr>
   \<and> \<not> ok \<lparr> status = 404, fetch_response.body = Some (Stream ''Not Found'' None) \<rparr>
   \<and> fst (remediate_loop first_unreachable
              (new_MissingFirmwareAssetError (missing [fw1, fw2])) [fw1, fw2] fresh) = Inr ()
   \<and> fetched (history (snd (remediate_loop first_unreachable
              (new_MissingFirmwareAssetError (missing [fw1, fw2])) [fw1, fw2] fresh)))
     = [fw1, fw2]
   \<and> registered (history (snd (remediate_loop first_unreachable
              (new_MissingFirmwareAssetError (missing [fw1, fw2])) [fw1, fw2] fresh)))
     = [fw2]"
  using unsuccessful_fetch_is_skipped [of first_unreachable fresh fw1
      "\<lparr> status = 404, fetch_response.body = Some (Stream ''Not Found'' None) \<rparr>"
      "new_MissingFirmwareAssetError (missing [fw1, fw2])" "[fw2]"]
  by (simp add: first_unreachable_def scripted_def fresh_def not_found_def delivers_def ok_def
        process_asset_def Let_def emit_def fileFromPath_def fetched_def registered_def
        fw1_def fw2_def)

text \<open>
  C7. When, anywhere in a run of \<^verbatim>\<open>create\<close>, the image API rejects a registration
  with \<open>e\<close>, the run rejects with \<open>e\<close> and the rejected registration is the last
  thing that happened: no later asset is fetched or registered and no creation request
  follows.
\<close>

theorem registration_failure_propagates:
  assumes "history (snd (create n p params w)) = history w @ es"
    and "ImageCreate a (Some e) \<in> set es"
  shows "fst (create n p params w) = Some (Inl e) \<and> last es = ImageCreate a (Some e)"
  using assms
proof (induction n arbitrary: params w es)
  case 0
  then show ?case by (simp add: create.simps)
next
  case (Suc n)
  from Suc.prems(1) show ?case
  proof (cases rule: create_Suc_cases)
    case settled
    with Suc.prems(2) show ?thesis by simp
  next
    case (aborted response err urls e' es1)
    from aborted(5) Suc.prems(2) have in1: "ImageCreate a (Some e) \<in> set es1" by simp
    then have "es1 \<noteq> []" by auto
    with remediate_loop_failed [OF aborted(6) in1] aborted(5,7,8) show ?thesis
      by simp
  next
    case (retried response err urls es1 es2 w2)
    have "ImageCreate a (Some e) \<notin> set es1"
    proof
      assume "ImageCreate a (Some e) \<in> set es1"
      moreover from retried(6,7)
      have "history (snd (remediate_loop p (new_MissingFirmwareAssetError err) urls
              (emit (ApiPost (request_of params)) w)))
            = history (emit (ApiPost (request_of params)) w) @ es1" by simp
      ultimately have "fst (remediate_loop p (new_MissingFirmwareAssetError err) urls
              (emit (ApiPost (request_of params)) w)) = Inl e"
        using remediate_loop_failed by blast
      with retried(6) show False by simp
    qed
    with retried(5) Suc.prems(2) have in2: "ImageCreate a (Some e) \<in> set es2" by simp
    then have "es2 \<noteq> []" by auto
    with Suc.IH [OF retried(9) in2] retried(5,8) show ?thesis by simp
  qed
qed

theorem registration_failure_propagates_witness:
  "history (snd (create (Suc (Suc 0)) registration_rejected d1_params fresh)) =
     history fresh @
       [ApiPost (request_of d1_params), Fetch fw1 (delivers ''firmware''),
        FileWrite ''/tmp/00.fwasset'' ''firmware'',
        ImageCreate (upload fw1 ''00'' 3) (Some (JsError ''Upload failed''))]
   \<and> fst (create (Suc (Suc 0)) registration_rejected d1_params fresh)
       = Some (Inl (JsError ''Upload failed''))"
proof -
  let ?es = "[ApiPost (request_of d1_params), Fetch fw1 (delivers ''firmware''),
        FileWrite ''/tmp/00.fwasset'' ''firmware'',
        ImageCreate (upload fw1 ''00'' 3) (Some (JsError ''Upload failed''))]
          :: (string \<times> string) list event list"
  have run: "history (snd (create (Suc (Suc 0)) registration_rejected d1_params fresh)) =
     history fresh @ ?es"
    by (simp add: registration_rejected_def scenario_defs run_defs)
  have "ImageCreate (upload fw1 ''00'' 3) (Some (JsError ''Upload failed'')) \<in> set ?es"
    by simp
  from registration_failure_propagates [OF run this] run show ?thesis by simp
qed

text \<open>
  C8. Every registration made in a run of \<^verbatim>\<open>create\<close> has the type \<^verbatim>\<open>fwasset\<close>,
  the encoding \<^verbatim>\<open>plain\<close> and \<^verbatim>\<open>encapsulated: false\<close>. It comes right after the
  fetch of the URL that is its name and the writing of the scratch file, and its file
  holds what that fetch delivered. The creation request before it was answered with an
  error payload that lists the URL, and its project is the project id of that payload.
\<close>

theorem registration_parameters:
  assumes "history (snd (create n p params w)) = history w @ es"
    and "ImageCreate a ans \<in> set es"
  shows "image_params.type a = ''fwasset'' \<and> encoding a = ''plain'' \<and> encapsulated a = False
     \<and> (\<exists>before pass after response err urls resp path chunks.
          es = before @ ApiPost (request_of params) # pass @
                 [Fetch (image_params.name a) (Inr resp), FileWrite path chunks,
                  ImageCreate a ans] @ after
          \<and> posted pass = []
          \<and> api_POST p (history w @ before) (request_of params) = Inr response
          \<and> response.error response = Some err
          \<and> RawMissingFirmwareAssetError.missingFwAssets err = Some urls
          \<and> image_params.name a \<in> set urls
          \<and> project a = RawMissingFirmwareAssetError.projectId err
          \<and> ok resp \<and> fetch_response.body resp = Some (Stream chunks None)
          \<and> content (file' a) = chunks)"
  using assms
proof (induction n arbitrary: params w es)
  case 0
  then show ?case by (simp add: create.simps)
next
  case (Suc n)
  let ?retry = "\<lparr> create_params.patches = Some (resolved_patches params),
                  create_params.body = create_params.body params \<rparr>"
  from Suc.prems(1) show ?case
  proof (cases rule: create_Suc_cases)
    case settled
    with Suc.prems(2) show ?thesis by simp
  next
    case (aborted response err urls e' es1)
    from aborted(5) Suc.prems(2) have "ImageCreate a ans \<in> set es1" by simp
    from first_pass_params [OF aborted(1,2,3,6) this, of "[]"] aborted(5)
    show ?thesis by simp
  next
    case (retried response err urls es1 es2 w2)
    from retried(6,7)
    have loop: "history (snd (remediate_loop p (new_MissingFirmwareAssetError err) urls
            (emit (ApiPost (request_of params)) w)))
           = history (emit (ApiPost (request_of params)) w) @ es1" by simp
    from Suc.prems(2) retried(5)
    consider "ImageCreate a ans \<in> set es1" | "ImageCreate a ans \<in> set es2" by auto
    then show ?thesis
    proof cases
      case 1
      from first_pass_params [OF retried(1,2,3) loop 1, of es2] retried(5)
      show ?thesis by simp
    next
      case 2
      from Suc.IH [OF retried(9) 2]
      obtain before pass after response' err' urls' resp path chunks where *:
        "image_params.type a = ''fwasset''" "encoding a = ''plain''" "encapsulated a = False"
        "es2 = before @ ApiPost (request_of params) # pass @
                 [Fetch (image_params.name a) (Inr resp), FileWrite path chunks,
                  ImageCreate a ans] @ after"
        "posted pass = []"
        "api_POST p (history w2 @ before) (request_of params) = Inr response'"
        "response.error response' = Some err'"
        "RawMissingFirmwareAssetError.missingFwAssets err' = Some urls'"
        "image_params.name a \<in> set urls'"
        "project a = RawMissingFirmwareAssetError.projectId err'"
        "ok resp" "fetch_response.body resp = Some (Stream chunks None)"
        "content (file' a) = chunks"
        unfolding request_of_retry by blast
      have "\<exists>before pass after response err urls resp path chunks.
          es = before @ ApiPost (request_of params) # pass @
                 [Fetch (image_params.name a) (Inr resp), FileWrite path chunks,
                  ImageCreate a ans] @ after
          \<and> posted pass = []
          \<and> api_POST p (history w @ before) (request_of params) = Inr response
          \<and> response.error response = Some err
          \<and> RawMissingFirmwareAssetError.missingFwAssets err = Some urls
          \<and> image_params.name a \<in> set urls
          \<and> project a = RawMissingFirmwareAssetError.projectId err
          \<and> ok resp \<and> fetch_response.body resp = Some (Stream chunks None)
          \<and> content (file' a) = chunks"
      proof (intro exI conjI)
        show "es = (ApiPost (request_of params) # es1 @ before) @
                 ApiPost (request_of params) # pass @
                 [Fetch (image_params.name a) (Inr resp), FileWrite path chunks,
                  ImageCreate a ans] @ after"
          using retried(5) *(4) by simp
        show "api_POST p (history w @ (ApiPost (request_of params) # es1 @ before))
                (request_of params) = Inr response'"
          using *(6) retried(7) by (simp add: history_emit)
      qed (use * in simp_all)
      with * show ?thesis by simp
    qed
  qed
qed

theorem registration_parameters_witness:
  "history (snd (create (Suc (Suc 0)) both_reachable d1_params fresh)) =
     history fresh @
       [ApiPost (request_of d1_params),
        Fetch fw1 (delivers ''firmware''), FileWrite ''/tmp/00.fwasset'' ''firmware'',
        ImageCreate (upload fw1 ''00'' 3) None,
        Fetch fw2 (delivers ''firmware''), FileWrite ''/tmp/00000.fwasset'' ''firmware'',
        ImageCreate (upload fw2 ''00000'' 6) None,
        ApiPost (request_of d1_params)]
   \<and> image_params.type (upload fw2 ''00000'' 6) = ''fwasset''
   \<and> encoding (upload fw2 ''00000'' 6) = ''plain''
   \<and> encapsulated (upload fw2 ''00000'' 6) = False
   \<and> image_params.name (upload fw2 ''00000'' 6) = fw2
   \<and> project (upload fw2 ''00000'' 6)
       = RawMissingFirmwareAssetError.projectId (missing [fw1, fw2])
   \<and> content (file' (upload fw2 ''00000'' 6)) = ''firmware''"
proof -
  let ?es = "[ApiPost (request_of d1_params),
        Fetch fw1 (delivers ''firmware''), FileWrite ''/tmp/00.fwasset'' ''firmware'',
        ImageCreate (upload fw1 ''00'' 3) None,
        Fetch fw2 (delivers ''firmware''), FileWrite ''/tmp/00000.fwasset'' ''firmware'',
        ImageCreate (upload fw2 ''00000'' 6) None,
        ApiPost (request_of d1_params)] :: (string \<times> string) list event list"
  have run: "history (snd (create (Suc (Suc 0)) both_reachable d1_params fresh)) =
     history fresh @ ?es"
    by (simp add: both_reachable_def scenario_defs run_defs)
  have "ImageCreate (upload fw2 ''00000'' 6) None \<in> set ?es"
    by simp
  from registration_parameters [OF run this]
  have "image_params.type (upload fw2 ''00000'' 6) = ''fwasset''"
    and "encoding (upload fw2 ''00000'' 6) = ''plain''"
    and "encapsulated (upload fw2 ''00000'' 6) = False"
    by simp_all
  with run show ?thesis by (simp add: upload_def missing_def)
qed

text \<open>
  C9. When a creation request fails with a payload that carries \<^verbatim>\<open>missingFwAssets\<close>,
  \<^verbatim>\<open>create\<close> rejects with the error about the variable, having done nothing else,
  if and only if the value of \<^verbatim>\<open>FETCH_FIRMWARE_ASSETS\<close> at that moment is not exactly
  \<^verbatim>\<open>1\<close>. The value is read again when the retry fails: a retry that follows a
  remediation pass is decided by the value at the time of the retry.
\<close>

theorem remediation_opt_in:
  assumes "api_POST p (history w) (request_of params) = Inr response"
    and "response.error response = Some err"
    and "RawMissingFirmwareAssetError.missingFwAssets err \<noteq> None"
  shows "((create (Suc n) p params w =
            (Some (Inl (JsError remediation_disabled_message)),
             emit (ApiPost (request_of params)) w))
          \<longleftrightarrow> env_FETCH_FIRMWARE_ASSETS p (history w @ [ApiPost (request_of params)])
                \<noteq> Some ''1'')
       \<and> (\<forall>w2 response2 err2.
             env_FETCH_FIRMWARE_ASSETS p (history w @ [ApiPost (request_of params)]) = Some ''1''
           \<and> remediate p (new_MissingFirmwareAssetError err)
                 (emit (ApiPost (request_of params)) w) = (Inr (), w2)
           \<and> api_POST p (history w2) (request_of params) = Inr response2
           \<and> response.error response2 = Some err2
           \<and> RawMissingFirmwareAssetError.missingFwAssets err2 \<noteq> None
           \<longrightarrow>
             ((create (Suc (Suc n)) p params w =
                 (Some (Inl (JsError remediation_disabled_message)),
                  emit (ApiPost (request_of params)) w2))
              \<longleftrightarrow> env_FETCH_FIRMWARE_ASSETS p (history w2 @ [ApiPost (request_of params)])
                    \<noteq> Some ''1''))"
proof (intro conjI allI impI)
  show "(create (Suc n) p params w =
            (Some (Inl (JsError remediation_disabled_message)),
             emit (ApiPost (request_of params)) w))
          \<longleftrightarrow> env_FETCH_FIRMWARE_ASSETS p (history w @ [ApiPost (request_of params)])
                \<noteq> Some ''1''"
    by (rule opt_in_decides [OF assms])
next
  fix w2 response2 err2
  let ?retry = "\<lparr> create_params.patches = Some (resolved_patches params),
                  create_params.body = create_params.body params \<rparr>"
  assume *: "env_FETCH_FIRMWARE_ASSETS p (history w @ [ApiPost (request_of params)]) = Some ''1''
           \<and> remediate p (new_MissingFirmwareAssetError err)
                 (emit (ApiPost (request_of params)) w) = (Inr (), w2)
           \<and> api_POST p (history w2) (request_of params) = Inr response2
           \<and> response.error response2 = Some err2
           \<and> RawMissingFirmwareAssetError.missingFwAssets err2 \<noteq> None"
  from assms(3) obtain urls where urls:
    "RawMissingFirmwareAssetError.missingFwAssets err = Some urls" by auto
  from create_remediating [OF assms(1,2) urls, of "Suc n"] * remediate_new [OF urls, of p]
  have "create (Suc (Suc n)) p params w = create (Suc n) p ?retry w2" by simp
  moreover from * have "api_POST p (history w2) (request_of ?retry) = Inr response2"
    by (simp add: request_of_retry)
  from opt_in_decides [OF this, of err2 n] *
  have "(create (Suc n) p ?retry w2 =
            (Some (Inl (JsError remediation_disabled_message)),
             emit (ApiPost (request_of params)) w2))
         \<longleftrightarrow> env_FETCH_FIRMWARE_ASSETS p (history w2 @ [ApiPost (request_of params)]) \<noteq> Some ''1''"
    by (simp add: request_of_retry)
  ultimately show "(create (Suc (Suc n)) p params w =
                 (Some (Inl (JsError remediation_disabled_message)),
                  emit (ApiPost (request_of params)) w2))
              \<longleftrightarrow> env_FETCH_FIRMWARE_ASSETS p (history w2 @ [ApiPost (request_of params)])
                    \<noteq> Some ''1''"
    by simp
qed

theorem remediation_opt_in_witness:
  "env_FETCH_FIRMWARE_ASSETS enabled_once (history fresh @ [ApiPost (request_of d1_params)])
     = Some ''1''
   \<and> create (Suc 0) enabled_once d1_params fresh \<noteq>
       (Some (Inl (JsError remediation_disabled_message)),
        emit (ApiPost (request_of d1_params)) fresh)
   \<and> env_FETCH_FIRMWARE_ASSETS enabled_once
       (history (snd (remediate enabled_once (new_MissingFirmwareAssetError (missing [fw1]))
                       (emit (ApiPost (request_of d1_params)) fresh)))
        @ [ApiPost (request_of d1_params)]) = Some ''yes''
   \<and> fst (create (Suc (Suc 0)) enabled_once d1_params fresh)
       = Some (Inl (JsError remediation_disabled_message))
   \<and> history (snd (create (Suc (Suc 0)) enabled_once d1_params fresh)) =
       [ApiPost (request_of d1_params), Fetch fw1 (delivers ''firmware''),
        FileWrite ''/tmp/00.fwasset'' ''firmware'', ImageCreate (upload fw1 ''00'' 3) None,
        ApiPost (request_of d1_params)]"
proof -
  let ?req = "request_of d1_params"
  let ?response = "\<lparr> data = None, response.error = Some (missing [fw1]) \<rparr> :: string response"
  let ?w2 = "snd (remediate enabled_once (new_MissingFirmwareAssetError (missing [fw1]))
                       (emit (ApiPost ?req) fresh))"
  have post: "api_POST enabled_once (history fresh) ?req = Inr ?response"
    and err: "response.error ?response = Some (missing [fw1])"
    and listed: "RawMissingFirmwareAssetError.missingFwAssets (missing [fw1]) \<noteq> None"
    by (simp_all add: enabled_once_def scripted_def failure_def missing_def)
  note decides = remediation_opt_in [OF post err listed]
  have first: "env_FETCH_FIRMWARE_ASSETS enabled_once (history fresh @ [ApiPost ?req]) = Some ''1''"
    by (simp add: enabled_once_def scripted_def posted_def fresh_def)
  with decides [of 0, THEN conjunct1]
  have now: "create (Suc 0) enabled_once d1_params fresh \<noteq>
       (Some (Inl (JsError remediation_disabled_message)), emit (ApiPost ?req) fresh)"
    by simp
  have pass: "remediate enabled_once (new_MissingFirmwareAssetError (missing [fw1]))
                (emit (ApiPost ?req) fresh) = (Inr (), ?w2)"
    by (simp add: enabled_once_def scenario_defs run_defs)
  have h2: "history ?w2 = [ApiPost ?req, Fetch fw1 (delivers ''firmware''),
        FileWrite ''/tmp/00.fwasset'' ''firmware'', ImageCreate (upload fw1 ''00'' 3) None]"
    by (simp add: enabled_once_def scenario_defs run_defs)
  have post2: "api_POST enabled_once (history ?w2) ?req = Inr ?response"
    by (simp add: enabled_once_def scripted_def failure_def)
  have second: "env_FETCH_FIRMWARE_ASSETS enabled_once (history ?w2 @ [ApiPost ?req]) = Some ''yes''"
    unfolding h2 by (simp add: enabled_once_def scripted_def posted_def)
  from decides [of 0, THEN conjunct2, rule_format, of ?w2 ?response "missing [fw1]"]
    first pass post2 err listed second
  have "create (Suc (Suc 0)) enabled_once d1_params fresh =
          (Some (Inl (JsError remediation_disabled_message)), emit (ApiPost ?req) ?w2)"
    by simp
  with h2 first now second show ?thesis
    by (simp add: history_emit)
qed

text \<open>
  C10. When the service answers \<^verbatim>\<open>list\<close> or \<^verbatim>\<open>search\<close> with an error
  payload, whatever the payload carries, the call rejects with an \<^verbatim>\<open>Error\<close> whose
  message is the payload's \<^verbatim>\<open>error\<close>; no data is returned, and the request is all
  that has happened.
\<close>

theorem list_and_search_errors:
  "(api_GET p (history w) None = Inr response \<and> response.error response = Some err \<longrightarrow>
      list_devices p w = (Inl (JsError (RawSDKError.error err)), emit (ApiGet None) w))
   \<and> (api_GET p (history w) (Some query_name) = Inr response' \<and>
        response.error response' = Some err' \<longrightarrow>
      search p query_name w =
        (Inl (JsError (RawSDKError.error err')), emit (ApiGet (Some query_name)) w))"
  by (simp add: list_devices_def search_def Let_def)

theorem list_and_search_errors_witness:
  "api_GET get_fails (history fresh) None
     = Inr \<lparr> data = None, response.error = Some (missing [fw1]) \<rparr>
   \<and> RawMissingFirmwareAssetError.missingFwAssets (missing [fw1]) = Some [fw1]
   \<and> list_devices get_fails fresh
     = (Inl (JsError ''Missing firmware assets''),
        \<lparr> history = [ApiGet None], files = Map.empty \<rparr>)
   \<and> search get_fails ''My Device'' fresh
     = (Inl (JsError ''Missing firmware assets''),
        \<lparr> history = [ApiGet (Some ''My Device'')], files = Map.empty \<rparr>)"
  using list_and_search_errors [of get_fails fresh
      "\<lparr> data = None, response.error = Some (missing [fw1]) \<rparr>" "missing [fw1]"
      "''My Device''"
      "\<lparr> data = None, response.error = Some (missing [fw1]) \<rparr>" "missing [fw1]"]
  by (simp add: get_fails_def scripted_def fresh_def failure_def missing_def emit_def)

end
